theory Spec2Isabelle
  imports Complex_Main "HOL-Library.Word"
begin

section \<open>JavaScript values used by the client\<close>

text \<open>
  A Buffer is a list of bytes. A JavaScript string is a \<^typ>\<open>string\<close>; the identifiers
  handled here are ASCII, so the string's length is the number of its characters.
  The slot \<^verbatim>\<open>infoHash\<close> of an object holds a string, \<^verbatim>\<open>null\<close> or
  \<^verbatim>\<open>undefined\<close>; the derived equality of \<open>jsval\<close> is JavaScript's \<^verbatim>\<open>===\<close>
  on these values.
\<close>

type_synonym byte = "8 word"

datatype jsval = JString string | JNull | JUndefined

fun truthy :: "jsval \<Rightarrow> bool" where
  "truthy (JString s) = (s \<noteq> [])"
| "truthy JNull = False"
| "truthy JUndefined = False"

text \<open>\<^verbatim>\<open>buf.toString('hex')\<close>: two lowercase hexadecimal digits per byte.\<close>

definition hexDigits :: string where
  "hexDigits = ''0123456789abcdef''"

definition hexByte :: "byte \<Rightarrow> string" where
  "hexByte b = [hexDigits ! (unat b div 16), hexDigits ! (unat b mod 16)]"

definition toString_hex :: "byte list \<Rightarrow> string" where
  "toString_hex bs = concat (map hexByte bs)"

section \<open>Identifier resolution: \<^verbatim>\<open>Client.toInfoHash\<close>\<close>

text \<open>
  The object \<^verbatim>\<open>magnet(uri)\<close> returns and the object \<^verbatim>\<open>parseTorrent(buf)\<close> returns;
  of the first only \<^verbatim>\<open>infoHash\<close> is read.
\<close>

record magnet_info =
  m_infoHash :: jsval

record parsed_torrent =
  p_infoHash :: jsval
  p_announce :: "string list"
  p_length :: "nat option"

text \<open>
  A torrent id as \<^verbatim>\<open>toInfoHash\<close> tells them apart: a string, a Buffer, another object
  (read through its \<^verbatim>\<open>infoHash\<close>; an object without one has \<open>JUndefined\<close> there), and
  \<open>IdOther\<close> for \<^verbatim>\<open>null\<close> and \<^verbatim>\<open>undefined\<close>.
\<close>

datatype torrentId =
  IdString string
| IdBuffer "byte list"
| IdParsed parsed_torrent
| IdOther

text \<open>
  The packages \<^verbatim>\<open>magnet-uri\<close> and \<^verbatim>\<open>parse-torrent\<close> are dependencies, not files of the
  repository: they are parameters. \<open>magnet\<close> gives \<open>None\<close> for a falsy result,
  \<open>parseTorrent\<close> gives \<open>None\<close> where the call throws.
\<close>

record env =
  magnet :: "string \<Rightarrow> magnet_info option"
  parseTorrent :: "byte list \<Rightarrow> parsed_torrent option"

text \<open>The regular expression \<^verbatim>\<open>/^magnet:/\<close>.\<close>

definition test_magnet :: "string \<Rightarrow> bool" where
  "test_magnet s = (take 7 s = ''magnet:'')"

definition toInfoHash :: "env \<Rightarrow> torrentId \<Rightarrow> jsval" where
  "toInfoHash e torrentId =
     (case torrentId of
        IdString s \<Rightarrow>
          (let s' = (if (\<not> test_magnet s \<and> length s = 40) \<or> length s = 32
                     then ''magnet:?xt=urn:btih:'' @ s else s)
           in case magnet e s' of
                None \<Rightarrow> JNull
              | Some info \<Rightarrow> m_infoHash info)
      | IdBuffer b \<Rightarrow>
          (if length b = 20 then JString (toString_hex b)
           else case parseTorrent e b of
                  None \<Rightarrow> JNull
                | Some t \<Rightarrow> p_infoHash t)
      | IdParsed t \<Rightarrow> (if truthy (p_infoHash t) then p_infoHash t else JNull)
      | IdOther \<Rightarrow> JNull)"

section \<open>The torrent registry of the client\<close>

text \<open>
  Modelled from the spec: \<^verbatim>\<open>lib/torrent.js\<close> is not among the sources. A torrent entry
  carries its content identifier, which is the resolved identifier it was constructed
  from, and its uploaded and downloaded byte counts, which start at zero. \<open>t_ref\<close> is
  the identity of the object; \<open>t_torrentId\<close> and \<open>t_opts\<close> are the constructor's
  arguments.
\<close>

type_synonym callback = nat

record torrent_opts =
  o_dht :: bool
  o_dhtPort :: "nat option"
  o_torrentPort :: "nat option"
  o_trackers :: bool
  o_user :: "nat option"

record torrent =
  t_ref :: nat
  t_torrentId :: torrentId
  t_opts :: torrent_opts
  infoHash :: jsval
  uploaded :: nat
  downloaded :: nat

definition Torrent_new :: "env \<Rightarrow> nat \<Rightarrow> torrentId \<Rightarrow> torrent_opts \<Rightarrow> torrent" where
  "Torrent_new e r torrentId opts =
     \<lparr> t_ref = r, t_torrentId = torrentId, t_opts = opts,
       infoHash = toInfoHash e torrentId, uploaded = 0, downloaded = 0 \<rparr>"

subsection \<open>The \<^verbatim>\<open>ratio\<close> getter\<close>

text \<open>
  \<^verbatim>\<open>reduce\<close> is a left fold from 0. JavaScript numbers are doubles: sums of byte
  counts are exact below \<open>2^53\<close>, and the quotient is modelled as the real quotient,
  which the double division rounds to the nearest double.
\<close>

definition ratio :: "torrent list \<Rightarrow> real" where
  "ratio ts =
     (let up = foldl (\<lambda>total t. total + uploaded t) 0 ts;
          down = foldl (\<lambda>total t. total + downloaded t) 0 ts
      in if down = 0 then 0 else real up / real down)"

section \<open>The client (\<^verbatim>\<open>Client\<close>)\<close>

text \<open>
  The sources hold the client three times. One client has the readiness barrier: its
  constructor runs the bootstrap tasks and \<^verbatim>\<open>add\<close> waits for \<^verbatim>\<open>ready\<close>. The two
  others have none, and one of them resolves torrent ids with the parser alone and has
  no \<^verbatim>\<open>toInfoHash\<close>. \<^verbatim>\<open>ratio\<close> and \<^verbatim>\<open>remove\<close> read the same in all three,
  \<^verbatim>\<open>toInfoHash\<close>, \<^verbatim>\<open>get\<close> and \<^verbatim>\<open>destroy\<close> read the same in the two that have
  \<^verbatim>\<open>toInfoHash\<close>.

  Errors are values. \<open>NoTorrentWithId\<close> is \<^verbatim>\<open>new Error('No torrent with id ' + torrentId)\<close>,
  \<open>PeerIdRequired\<close> is \<^verbatim>\<open>new Error('peerId required')\<close>, \<open>TypeError\<close> is what a method
  call on a value without that method throws, \<open>External\<close> is an error that a
  collaborator reports to a callback.
\<close>

datatype js_error =
  NoTorrentWithId torrentId
| PeerIdRequired
| TypeError
| External nat

text \<open>
  The callback handed to a collaborator: one of the caller's functions, the
  \<^verbatim>\<open>done\<close> of task \<open>i\<close> of a \<^verbatim>\<open>parallel\<close> run, or none.
\<close>

datatype cb_arg = CbUser callback | CbDone nat | CbNone

text \<open>The calls the client makes on its collaborators, in the order it makes them.\<close>

datatype call =
  TorrentDestroy nat cb_arg
| DhtDestroy cb_arg
| DhtNew
| DhtOn string
| DhtListen "nat option"
| DhtLookup jsval
| PortfinderGetPort
| NextTickAddTorrent nat
| CallCb cb_arg "js_error option"

text \<open>The events the client emits to its own observers.\<close>

datatype event = EvError js_error | EvReady

text \<open>
  The arguments of one \<^verbatim>\<open>add(torrentId, opts, ontorrent)\<close>. The second argument is
  absent, an options object (named by a number) or a function.
\<close>

datatype opts_arg = OptsNone | OptsObject nat | OptsFunction callback

record add_call =
  a_torrentId :: torrentId
  a_opts :: opts_arg
  a_ontorrent :: "callback option"

text \<open>
  The state of a client. \<open>ready_listeners\<close> are the listeners that \<^verbatim>\<open>add\<close> registers
  with \<^verbatim>\<open>once('ready', ...)\<close>, \<open>torrent_listeners\<close> the closures
  \<^verbatim>\<open>clientOnTorrent\<close>, each with the torrent it waits for. \<open>dht\<close> says that
  \<^verbatim>\<open>self.dht\<close> holds a DHT object. \<open>next_ref\<close> names the next object allocated.
  \<open>par_pending\<close>, \<open>par_error\<close> and \<open>par_fired\<close> are the state of the
  \<^verbatim>\<open>parallel\<close> run of the bootstrap tasks.
\<close>

record client =
  ready :: bool
  torrents :: "torrent list"
  dht :: bool
  dhtPort :: "nat option"
  torrentPort :: "nat option"
  trackersEnabled :: bool
  ready_listeners :: "add_call list"
  torrent_listeners :: "(nat \<times> callback) list"
  emitted :: "event list"
  calls :: "call list"
  next_ref :: nat
  par_pending :: int
  par_error :: "js_error option"
  par_fired :: bool

subsection \<open>\<^verbatim>\<open>get\<close> and \<^verbatim>\<open>remove\<close>\<close>

text \<open>The loop of \<^verbatim>\<open>get\<close>: the first torrent whose \<^verbatim>\<open>infoHash\<close> is \<^verbatim>\<open>===\<close> the hash.\<close>

fun get_loop :: "torrent list \<Rightarrow> jsval \<Rightarrow> torrent option" where
  "get_loop [] h = None"
| "get_loop (t # ts) h = (if infoHash t = h then Some t else get_loop ts h)"

definition Client_get :: "env \<Rightarrow> client \<Rightarrow> torrentId \<Rightarrow> torrent option" where
  "Client_get e c torrentId = get_loop (torrents c) (toInfoHash e torrentId)"

text \<open>
  \<^verbatim>\<open>indexOf\<close> compares objects by identity and gives -1 when there is none;
  \<^verbatim>\<open>splice(i, 1)\<close> counts a negative \<open>i\<close> from the end.
\<close>

fun indexOf :: "torrent list \<Rightarrow> torrent \<Rightarrow> int" where
  "indexOf [] t = -1"
| "indexOf (x # xs) t =
     (if t_ref x = t_ref t then 0
      else let i = indexOf xs t in if i < 0 then -1 else i + 1)"

definition splice1 :: "int \<Rightarrow> 'a list \<Rightarrow> 'a list" where
  "splice1 i xs =
     (let n = int (length xs);
          start = (if i < 0 then max (n + i) 0 else min i n)
      in take (nat start) xs @ drop (nat start + 1) xs)"

text \<open>
  \<^verbatim>\<open>remove\<close> gives the error it throws, if any, and the state it leaves.
\<close>

definition Client_remove ::
  "env \<Rightarrow> client \<Rightarrow> torrentId \<Rightarrow> cb_arg \<Rightarrow> js_error option \<times> client" where
  "Client_remove e c torrentId cb =
     (case Client_get e c torrentId of
        None \<Rightarrow> (Some (NoTorrentWithId torrentId), c)
      | Some t \<Rightarrow>
          (None, c\<lparr> torrents := splice1 (indexOf (torrents c) t) (torrents c),
                    calls := calls c @ [TorrentDestroy (t_ref t) cb] \<rparr>))"

subsection \<open>\<^verbatim>\<open>add\<close>\<close>

text \<open>
  The options \<^verbatim>\<open>add\<close> hands to the torrent: the client's own values, and the caller's
  options object, if any, that \<^verbatim>\<open>extend\<close> lays over them.
\<close>

definition torrent_options :: "client \<Rightarrow> nat option \<Rightarrow> torrent_opts" where
  "torrent_options c user =
     \<lparr> o_dht = dht c, o_dhtPort = dhtPort c, o_torrentPort = torrentPort c,
       o_trackers = trackersEnabled c, o_user = user \<rparr>"

text \<open>\<^verbatim>\<open>if (typeof opts === 'function') { ontorrent = opts; opts = {} }\<close>\<close>

definition shift_args :: "add_call \<Rightarrow> nat option \<times> callback option" where
  "shift_args a =
     (case a_opts a of
        OptsFunction f \<Rightarrow> (None, Some f)
      | OptsObject k \<Rightarrow> (Some k, a_ontorrent a)
      | OptsNone \<Rightarrow> (None, a_ontorrent a))"

text \<open>
  \<^verbatim>\<open>add\<close> as the client with the readiness barrier has it: before
  \<^verbatim>\<open>ready\<close> the call is bound and registered for the \<^verbatim>\<open>ready\<close> event; after it the
  torrent is constructed and pushed. The listeners \<^verbatim>\<open>add\<close> puts on the torrent and on
  its swarm run only when the torrent emits, and are left out.
\<close>

definition Client_add :: "env \<Rightarrow> client \<Rightarrow> add_call \<Rightarrow> client" where
  "Client_add e c a =
     (if \<not> ready c then c\<lparr> ready_listeners := ready_listeners c @ [a] \<rparr>
      else
        let (opts, ontorrent) = shift_args a;
            torrent = Torrent_new e (next_ref c) (a_torrentId a) (torrent_options c opts)
        in c\<lparr> torrents := torrents c @ [torrent],
               next_ref := Suc (next_ref c),
               torrent_listeners :=
                 torrent_listeners c @
                 (case ontorrent of None \<Rightarrow> [] | Some f \<Rightarrow> [(t_ref torrent, f)]),
               calls :=
                 calls c @ [NextTickAddTorrent (t_ref torrent)] @
                 (if dht c then [DhtLookup (infoHash torrent)] else []) \<rparr>)"

text \<open>
  \<^verbatim>\<open>add\<close> as the clients without the barrier have it: the listener for
  \<^verbatim>\<open>ontorrent\<close> first, then the torrent, which is pushed and returned.
\<close>

definition Client_add_direct :: "env \<Rightarrow> client \<Rightarrow> add_call \<Rightarrow> torrent \<times> client" where
  "Client_add_direct e c a =
     (let (opts, ontorrent) = shift_args a;
          torrent = Torrent_new e (next_ref c) (a_torrentId a) (torrent_options c opts)
      in (torrent,
          c\<lparr> torrent_listeners :=
                torrent_listeners c @
                (case ontorrent of None \<Rightarrow> [] | Some f \<Rightarrow> [(t_ref torrent, f)]),
              torrents := torrents c @ [torrent],
              next_ref := Suc (next_ref c) \<rparr>))"

subsection \<open>The readiness barrier of the constructor\<close>

text \<open>
  \<^verbatim>\<open>emit('ready')\<close> calls a copy of the listeners in the order they were registered;
  a \<^verbatim>\<open>once\<close> listener removes itself and then runs.
\<close>

fun replay :: "env \<Rightarrow> add_call list \<Rightarrow> client \<Rightarrow> client" where
  "replay e [] c = c"
| "replay e (a # as) c =
     replay e as (Client_add e (c\<lparr> ready_listeners := remove1 a (ready_listeners c) \<rparr>) a)"

definition emit_ready :: "env \<Rightarrow> client \<Rightarrow> client" where
  "emit_ready e c = replay e (ready_listeners c) (c\<lparr> emitted := emitted c @ [EvReady] \<rparr>)"

text \<open>The callback the constructor gives to \<^verbatim>\<open>parallel\<close>.\<close>

definition on_bootstrap :: "env \<Rightarrow> js_error option \<Rightarrow> client \<Rightarrow> client" where
  "on_bootstrap e err c =
     (case err of
        Some x \<Rightarrow> c\<lparr> emitted := emitted c @ [EvError x] \<rparr>
      | None \<Rightarrow> emit_ready e (c\<lparr> ready := True \<rparr>))"

text \<open>
  Modelled from the spec: the package \<^verbatim>\<open>run-parallel\<close> is not among the sources. The spec
  has a task group that starts every task, joins them and reports the first error once
  every task has finished: the policy \<open>Join\<close>. Whether the runner waits for the
  other tasks after a failure cannot be read from the sources, so the policy
  \<open>FailFast\<close>, a runner that calls back at the first error and ignores what is
  reported later, is modelled beside it. The callback is called at most once, and at
  once for an empty task list.
\<close>

datatype policy = Join | FailFast

definition par_done :: "policy \<Rightarrow> env \<Rightarrow> js_error option \<Rightarrow> client \<Rightarrow> client" where
  "par_done p e err c =
     (let pending = par_pending c - 1;
          first = (case par_error c of None \<Rightarrow> err | Some x \<Rightarrow> Some x);
          c1 = c\<lparr> par_pending := pending, par_error := first \<rparr>
      in case p of
           Join \<Rightarrow>
             if pending = 0 \<and> \<not> par_fired c
             then on_bootstrap e first (c1\<lparr> par_fired := True \<rparr>) else c1
         | FailFast \<Rightarrow>
             if (pending = 0 \<or> err \<noteq> None) \<and> \<not> par_fired c
             then on_bootstrap e err (c1\<lparr> par_fired := True \<rparr>) else c1)"

text \<open>
  The tasks: acquiring a port, bringing up the DHT, and, for \<^verbatim>\<open>destroy\<close>, removing
  the torrent with a given \<^verbatim>\<open>infoHash\<close> and destroying the DHT.
\<close>

datatype task = PortTask | DhtTask | RemoveTask jsval | DhtDestroyTask

text \<open>
  The options of the constructor once \<^verbatim>\<open>extend\<close> has laid them over the defaults;
  of \<^verbatim>\<open>opts.dht\<close> only whether it is truthy is read here.
\<close>

record client_opts =
  co_dht :: bool
  co_trackers :: bool
  co_dhtPort :: "nat option"
  co_torrentPort :: "nat option"

text \<open>A port is falsy when it is \<^verbatim>\<open>undefined\<close> or 0.\<close>

definition port_truthy :: "nat option \<Rightarrow> bool" where
  "port_truthy p = (case p of None \<Rightarrow> False | Some n \<Rightarrow> n \<noteq> 0)"

definition bootstrap_tasks :: "client_opts \<Rightarrow> task list" where
  "bootstrap_tasks opts =
     (if \<not> port_truthy (co_torrentPort opts) then [PortTask] else []) @
     (if co_dht opts then [DhtTask] else [])"

text \<open>What starting a bootstrap task does before it suspends.\<close>

fun start_bootstrap :: "client \<Rightarrow> task \<Rightarrow> client" where
  "start_bootstrap c PortTask = c\<lparr> calls := calls c @ [PortfinderGetPort] \<rparr>"
| "start_bootstrap c DhtTask =
     c\<lparr> dht := True,
        calls := calls c @ [DhtNew, DhtOn ''peer'', DhtOn ''listening'', DhtOn ''ready'',
                            DhtListen (dhtPort c)] \<rparr>"
| "start_bootstrap c _ = c"

definition Client_new :: "policy \<Rightarrow> env \<Rightarrow> client_opts \<Rightarrow> client" where
  "Client_new p e opts =
     (let c = \<lparr> ready = False, torrents = [], dht = False, dhtPort = co_dhtPort opts,
                torrentPort = co_torrentPort opts, trackersEnabled = co_trackers opts,
                ready_listeners = [], torrent_listeners = [], emitted = [], calls = [],
                next_ref = 0, par_pending = int (length (bootstrap_tasks opts)),
                par_error = None, par_fired = False \<rparr>
      in if bootstrap_tasks opts = [] then on_bootstrap e None (c\<lparr> par_fired := True \<rparr>)
         else foldl start_bootstrap c (bootstrap_tasks opts))"

text \<open>
  What reaches the client afterwards: the callback of \<^verbatim>\<open>portfinder.getPort\<close> with an
  error or a port, the DHT's \<^verbatim>\<open>ready\<close> and \<^verbatim>\<open>listening\<close> events, and calls of
  \<^verbatim>\<open>add\<close>.
\<close>

datatype input =
  PortFound "js_error option" "nat option"
| DhtReady
| DhtListening nat
| Add add_call

fun step :: "policy \<Rightarrow> env \<Rightarrow> client \<Rightarrow> input \<Rightarrow> client" where
  "step p e c (PortFound err port) = par_done p e err (c\<lparr> torrentPort := port \<rparr>)"
| "step p e c DhtReady = par_done p e None c"
| "step p e c (DhtListening port) = c\<lparr> dhtPort := Some port \<rparr>"
| "step p e c (Add a) = Client_add e c a"

definition run :: "policy \<Rightarrow> env \<Rightarrow> client \<Rightarrow> input list \<Rightarrow> client" where
  "run p e c ins = foldl (step p e) c ins"

text \<open>
  The task an input reports for, the failure it reports, and the calls of \<^verbatim>\<open>add\<close>
  among the inputs.
\<close>

fun reported :: "input list \<Rightarrow> task list" where
  "reported [] = []"
| "reported (PortFound err port # ins) = PortTask # reported ins"
| "reported (DhtReady # ins) = DhtTask # reported ins"
| "reported (i # ins) = reported ins"

fun failure :: "input \<Rightarrow> bool" where
  "failure (PortFound (Some x) port) = True"
| "failure i = False"

fun adds :: "input list \<Rightarrow> add_call list" where
  "adds [] = []"
| "adds (Add a # ins) = a # adds ins"
| "adds (i # ins) = adds ins"

definition failed :: "input list \<Rightarrow> bool" where
  "failed ins = (\<exists>i\<in>set ins. failure i)"

text \<open>
  What a call of \<^verbatim>\<open>add\<close> asks for, the torrent id and the options object, and
  what a registered torrent was constructed from.
\<close>

definition requested :: "add_call \<Rightarrow> torrentId \<times> nat option" where
  "requested a = (a_torrentId a, fst (shift_args a))"

definition applied :: "torrent \<Rightarrow> torrentId \<times> nat option" where
  "applied t = (t_torrentId t, o_user (t_opts t))"

subsection \<open>\<^verbatim>\<open>destroy\<close>\<close>

text \<open>A torrent's \<^verbatim>\<open>infoHash\<close> as the torrent id that a task gives to \<^verbatim>\<open>remove\<close>.\<close>

fun id_of :: "jsval \<Rightarrow> torrentId" where
  "id_of (JString s) = IdString s"
| "id_of JNull = IdOther"
| "id_of JUndefined = IdOther"

text \<open>
  Modelled from the spec: \<^verbatim>\<open>run-parallel\<close> is not among the sources. The runner starts
  every task, in order, task \<open>i\<close> with its own \<^verbatim>\<open>done\<close>, and calls back at once
  when there is no task; an exception of a task leaves the loop. What a task does when
  it is started is the code of \<^verbatim>\<open>destroy\<close>.
\<close>

fun start_teardown :: "env \<Rightarrow> nat \<Rightarrow> task list \<Rightarrow> client \<Rightarrow> js_error option \<times> client" where
  "start_teardown e i [] c = (None, c)"
| "start_teardown e i (RemoveTask h # ts) c =
     (case Client_remove e c (id_of h) (CbDone i) of
        (Some x, c') \<Rightarrow> (Some x, c')
      | (None, c') \<Rightarrow> start_teardown e (Suc i) ts c')"
| "start_teardown e i (DhtDestroyTask # ts) c =
     start_teardown e (Suc i) ts (c\<lparr> calls := calls c @ [DhtDestroy (CbDone i)] \<rparr>)"
| "start_teardown e i (t # ts) c = start_teardown e (Suc i) ts c"

definition parallel_teardown ::
  "env \<Rightarrow> task list \<Rightarrow> cb_arg \<Rightarrow> client \<Rightarrow> js_error option \<times> client" where
  "parallel_teardown e tasks cb c =
     (if tasks = [] then (None, c\<lparr> calls := calls c @ [CallCb cb None] \<rparr>)
      else start_teardown e 0 tasks c)"

text \<open>
  \<^verbatim>\<open>destroy\<close> of the two clients that have \<^verbatim>\<open>toInfoHash\<close>: the DHT is destroyed by a
  call without a callback, and the tasks are one per torrent.
\<close>

definition destroy_tasks :: "client \<Rightarrow> task list" where
  "destroy_tasks c = map (\<lambda>torrent. RemoveTask (infoHash torrent)) (torrents c)"

definition Client_destroy :: "env \<Rightarrow> client \<Rightarrow> cb_arg \<Rightarrow> js_error option \<times> client" where
  "Client_destroy e c cb =
     (let c1 = (if dht c then c\<lparr> calls := calls c @ [DhtDestroy CbNone] \<rparr> else c)
      in parallel_teardown e (destroy_tasks c1) cb c1)"

text \<open>
  The task list of \<^verbatim>\<open>destroy\<close> of the third client, which pushes the DHT's teardown
  as a task of its own.
\<close>

definition destroy_tasks_pushed :: "client \<Rightarrow> task list" where
  "destroy_tasks_pushed c =
     map (\<lambda>torrent. RemoveTask (infoHash torrent)) (torrents c) @
     (if dht c then [DhtDestroyTask] else [])"

section \<open>The discovery coordinator (\<^verbatim>\<open>lib/peer-discovery.js\<close>)\<close>

text \<open>
  A peer id is a string or a Buffer; of the two only the empty string is falsy, as
  an absent one is.
\<close>

datatype peer_id = PeerIdString string | PeerIdBuffer "byte list"

fun peerId_truthy :: "peer_id option \<Rightarrow> bool" where
  "peerId_truthy None = False"
| "peerId_truthy (Some (PeerIdString s)) = (s \<noteq> [])"
| "peerId_truthy (Some (PeerIdBuffer b)) = True"

text \<open>
  The value of \<^verbatim>\<open>self.dht\<close>: \<^verbatim>\<open>true\<close>, \<^verbatim>\<open>false\<close>, \<^verbatim>\<open>null\<close> (or
  \<^verbatim>\<open>undefined\<close>), or a DHT object, which is one the caller supplied or the one the
  coordinator constructs. The value of \<^verbatim>\<open>self.tracker\<close>: \<^verbatim>\<open>true\<close>, \<^verbatim>\<open>false\<close>
  or the tracker client the coordinator constructs.
\<close>

datatype dht_handle = Supplied nat | Constructed

datatype dht_val = DhtTrue | DhtFalse | DhtNull | DhtObject dht_handle

datatype dht_opt = OptTrue | OptFalse | OptNull | OptHandle nat

datatype tracker_val = TrackerTrue | TrackerFalse | TrackerObject

text \<open>
  The options the constructor reads; a field is \<open>None\<close> when the options object has
  no such key, and the default of \<^verbatim>\<open>extend\<close> stands. \<^verbatim>\<open>externalDHT\<close> is the
  coordinator's own flag and no option.
\<close>

record pd_opts =
  po_peerId :: "peer_id option"
  po_announce :: "string list option"
  po_dht :: "dht_opt option"
  po_tracker :: "bool option"
  po_torrentPort :: "nat option"
  po_dhtPort :: "nat option"

definition no_opts :: pd_opts where
  "no_opts = \<lparr> po_peerId = None, po_announce = None, po_dht = None, po_tracker = None,
               po_torrentPort = None, po_dhtPort = None \<rparr>"

text \<open>The calls the coordinator makes on the DHT and on the tracker client.\<close>

datatype pd_call =
  PDhtNew
| PDhtListen "nat option"
| PDhtOn dht_handle string
| PDhtLookup dht_handle torrentId
| PDhtAnnounce dht_handle torrentId nat
| PDhtDestroy dht_handle
| PTrackerNew
| PTrackerOn string
| PTrackerStart
| PTrackerStop
| PTrackerSetLength "nat option"

text \<open>The events the coordinator emits.\<close>

datatype pd_event = Peer string | Warning js_error | DhtAnnounce

text \<open>
  The state of a coordinator. The four counters are the listeners it has registered:
  \<^verbatim>\<open>_onPeer\<close> on the DHT's \<^verbatim>\<open>peer\<close>, \<^verbatim>\<open>_dhtLookupAndAnnounce\<close> on the DHT's
  \<^verbatim>\<open>ready\<close>, \<^verbatim>\<open>_onPeer\<close> on the tracker's \<^verbatim>\<open>peer\<close>, and the warning function on
  the tracker's \<^verbatim>\<open>error\<close>.
\<close>

record pd =
  pd_peerId :: "peer_id option"
  pd_announce :: "string list"
  pd_dht :: dht_val
  pd_externalDHT :: bool
  pd_tracker :: tracker_val
  pd_torrentPort :: "nat option"
  pd_torrent :: "parsed_torrent option"
  pd_infoHash :: torrentId
  pd_calls :: "pd_call list"
  pd_emitted :: "pd_event list"
  on_dht_peer :: nat
  on_dht_ready :: nat
  on_tracker_peer :: nat
  on_tracker_error :: nat

fun dht_truthy :: "dht_val \<Rightarrow> bool" where
  "dht_truthy DhtTrue = True"
| "dht_truthy (DhtObject h) = True"
| "dht_truthy DhtFalse = False"
| "dht_truthy DhtNull = False"

fun dht_of_opt :: "dht_opt option \<Rightarrow> dht_val" where
  "dht_of_opt None = DhtTrue"
| "dht_of_opt (Some OptTrue) = DhtTrue"
| "dht_of_opt (Some OptFalse) = DhtFalse"
| "dht_of_opt (Some OptNull) = DhtNull"
| "dht_of_opt (Some (OptHandle h)) = DhtObject (Supplied h)"

text \<open>
  \<^verbatim>\<open>_createDHT\<close>. The last line calls \<^verbatim>\<open>on\<close> on \<^verbatim>\<open>self.dht\<close>, which \<^verbatim>\<open>true\<close>
  does not have. Each function of the coordinator gives the error it throws, if any,
  and the state it leaves.
\<close>

definition createDHT :: "nat option \<Rightarrow> pd \<Rightarrow> js_error option \<times> pd" where
  "createDHT port self =
     (if pd_dht self = DhtFalse then (None, self)
      else
        let self1 =
              (if dht_truthy (pd_dht self) then self\<lparr> pd_externalDHT := True \<rparr>
               else self\<lparr> pd_dht := DhtObject Constructed,
                          pd_calls := pd_calls self @ [PDhtNew, PDhtListen port] \<rparr>)
        in case pd_dht self1 of
             DhtObject h \<Rightarrow>
               (None, self1\<lparr> pd_calls := pd_calls self1 @ [PDhtOn h ''peer''],
                             on_dht_peer := on_dht_peer self1 + 1 \<rparr>)
           | _ \<Rightarrow> (Some TypeError, self1))"

text \<open>\<^verbatim>\<open>if (!opts) opts = {}\<close>\<close>

definition given_opts :: "pd_opts option \<Rightarrow> pd_opts" where
  "given_opts opts_arg = (case opts_arg of None \<Rightarrow> no_opts | Some x \<Rightarrow> x)"

definition PeerDiscovery_new :: "pd_opts option \<Rightarrow> js_error option \<times> pd" where
  "PeerDiscovery_new opts_arg =
     (let opts = given_opts opts_arg;
          self = \<lparr> pd_peerId = po_peerId opts,
                   pd_announce = (case po_announce opts of None \<Rightarrow> [] | Some x \<Rightarrow> x),
                   pd_dht = dht_of_opt (po_dht opts),
                   pd_externalDHT = False,
                   pd_tracker = (case po_tracker opts of
                                   None \<Rightarrow> TrackerTrue
                                 | Some True \<Rightarrow> TrackerTrue
                                 | Some False \<Rightarrow> TrackerFalse),
                   pd_torrentPort = po_torrentPort opts,
                   pd_torrent = None, pd_infoHash = IdOther,
                   pd_calls = [], pd_emitted = [],
                   on_dht_peer = 0, on_dht_ready = 0, on_tracker_peer = 0,
                   on_tracker_error = 0 \<rparr>
      in if \<not> peerId_truthy (pd_peerId self) then (Some PeerIdRequired, self)
         else createDHT (po_dhtPort opts) self)"

text \<open>\<^verbatim>\<open>_dhtLookupAndAnnounce\<close>, up to the call of \<^verbatim>\<open>lookup\<close>.\<close>

definition dhtLookupAndAnnounce :: "pd \<Rightarrow> js_error option \<times> pd" where
  "dhtLookupAndAnnounce self =
     (case pd_dht self of
        DhtObject h \<Rightarrow>
          (None, self\<lparr> pd_calls := pd_calls self @ [PDhtLookup h (pd_infoHash self)] \<rparr>)
      | _ \<Rightarrow> (Some TypeError, self))"

definition createTracker :: "pd \<Rightarrow> pd" where
  "createTracker self =
     (if pd_tracker self = TrackerFalse then self
      else self\<lparr> pd_tracker := TrackerObject,
                 pd_calls := pd_calls self @
                   [PTrackerNew, PTrackerOn ''peer'', PTrackerOn ''error'', PTrackerStart],
                 on_tracker_peer := on_tracker_peer self + 1,
                 on_tracker_error := on_tracker_error self + 1 \<rparr>)"

text \<open>
  \<^verbatim>\<open>torrent.length\<close> of the argument of \<^verbatim>\<open>setTorrent\<close>; reading it from
  \<^verbatim>\<open>null\<close> or \<^verbatim>\<open>undefined\<close> throws.
\<close>

fun length_of :: "torrentId \<Rightarrow> js_error + nat option" where
  "length_of (IdParsed t) = Inr (p_length t)"
| "length_of (IdString s) = Inr (Some (length s))"
| "length_of (IdBuffer b) = Inr (Some (length b))"
| "length_of IdOther = Inl TypeError"

text \<open>
  \<^verbatim>\<open>setTorrent\<close>; \<open>dht_ready\<close> is what \<^verbatim>\<open>self.dht.ready\<close> holds at the call.
\<close>

definition setTorrent :: "torrentId \<Rightarrow> bool \<Rightarrow> pd \<Rightarrow> js_error option \<times> pd" where
  "setTorrent torrent dht_ready self =
     (let self1 =
            (case torrent of
               IdParsed t \<Rightarrow>
                 if truthy (p_infoHash t)
                 then self\<lparr> pd_torrent := Some t, pd_infoHash := id_of (p_infoHash t) \<rparr>
                 else self\<lparr> pd_infoHash := torrent \<rparr>
             | _ \<Rightarrow> self\<lparr> pd_infoHash := torrent \<rparr>);
          r2 =
            (if pd_tracker self1 = TrackerObject
             then case length_of torrent of
                    Inl x \<Rightarrow> (Some x, self1)
                  | Inr n \<Rightarrow>
                      (None, self1\<lparr> pd_calls := pd_calls self1 @ [PTrackerSetLength n] \<rparr>)
             else (None, createTracker self1))
      in case r2 of
           (Some x, self2) \<Rightarrow> (Some x, self2)
         | (None, self2) \<Rightarrow>
             if dht_truthy (pd_dht self2)
             then if dht_ready then dhtLookupAndAnnounce self2
                  else case pd_dht self2 of
                         DhtObject h \<Rightarrow>
                           (None, self2\<lparr> pd_calls := pd_calls self2 @ [PDhtOn h ''ready''],
                                         on_dht_ready := on_dht_ready self2 + 1 \<rparr>)
                       | _ \<Rightarrow> (Some TypeError, self2)
             else (None, self2))"

text \<open>
  \<^verbatim>\<open>stop\<close>. \<^verbatim>\<open>self.tracker\<close> is still \<^verbatim>\<open>true\<close> when no tracker client was
  created, and \<^verbatim>\<open>true\<close> has no \<^verbatim>\<open>stop\<close>.
\<close>

definition stop :: "pd \<Rightarrow> js_error option \<times> pd" where
  "stop self =
     (let r1 =
            (case pd_tracker self of
               TrackerFalse \<Rightarrow> (None, self)
             | TrackerObject \<Rightarrow> (None, self\<lparr> pd_calls := pd_calls self @ [PTrackerStop] \<rparr>)
             | TrackerTrue \<Rightarrow> (Some TypeError, self))
      in case r1 of
           (Some x, self1) \<Rightarrow> (Some x, self1)
         | (None, self1) \<Rightarrow>
             if dht_truthy (pd_dht self1) \<and> \<not> pd_externalDHT self1
             then case pd_dht self1 of
                    DhtObject h \<Rightarrow>
                      (None, self1\<lparr> pd_calls := pd_calls self1 @ [PDhtDestroy h] \<rparr>)
                  | _ \<Rightarrow> (Some TypeError, self1)
             else (None, self1))"

text \<open>
  What the collaborators emit and call back.
\<close>

datatype source_event =
  DhtPeer string
| DhtReadyEvent
| TrackerPeer string
| TrackerError js_error
| LookupDone "js_error option"
| AnnounceDone

text \<open>
  \<^verbatim>\<open>_onPeer\<close> emits \<^verbatim>\<open>peer\<close>; the listener on the tracker's \<^verbatim>\<open>error\<close> emits
  \<^verbatim>\<open>warning\<close>; the callback of \<^verbatim>\<open>lookup\<close> announces unless there is an error or
  no port; the callback of \<^verbatim>\<open>announce\<close> emits \<^verbatim>\<open>dhtAnnounce\<close>.
\<close>

definition onPeer :: "string \<Rightarrow> pd \<Rightarrow> pd" where
  "onPeer addr self = self\<lparr> pd_emitted := pd_emitted self @ [Peer addr] \<rparr>"

definition onTrackerError :: "js_error \<Rightarrow> pd \<Rightarrow> pd" where
  "onTrackerError err self = self\<lparr> pd_emitted := pd_emitted self @ [Warning err] \<rparr>"

definition onLookup :: "js_error option \<Rightarrow> pd \<Rightarrow> pd" where
  "onLookup err self =
     (case (err, pd_torrentPort self, pd_dht self) of
        (None, Some port, DhtObject h) \<Rightarrow>
          if port = 0 then self
          else self\<lparr> pd_calls := pd_calls self @ [PDhtAnnounce h (pd_infoHash self) port] \<rparr>
      | _ \<Rightarrow> self)"

definition onAnnounce :: "pd \<Rightarrow> pd" where
  "onAnnounce self = self\<lparr> pd_emitted := pd_emitted self @ [DhtAnnounce] \<rparr>"

text \<open>
  An event of a collaborator runs every listener registered for it, one after the
  other; a callback runs once.
\<close>

fun deliver :: "pd \<Rightarrow> source_event \<Rightarrow> pd" where
  "deliver self (DhtPeer addr) = (onPeer addr ^^ on_dht_peer self) self"
| "deliver self (TrackerPeer addr) = (onPeer addr ^^ on_tracker_peer self) self"
| "deliver self (TrackerError err) = (onTrackerError err ^^ on_tracker_error self) self"
| "deliver self DhtReadyEvent =
     ((\<lambda>s. snd (dhtLookupAndAnnounce s)) ^^ on_dht_ready self) self"
| "deliver self (LookupDone err) = onLookup err self"
| "deliver self AnnounceDone = onAnnounce self"

text \<open>
  The operations on a coordinator after its construction. A caller may catch what an
  operation throws and go on, so a sequence of operations runs on whatever happens.
\<close>

datatype pd_op = OpSetTorrent torrentId bool | OpEvent source_event | OpStop

fun pd_step :: "pd \<Rightarrow> pd_op \<Rightarrow> pd" where
  "pd_step self (OpSetTorrent torrent dht_ready) = snd (setTorrent torrent dht_ready self)"
| "pd_step self (OpEvent ev) = deliver self ev"
| "pd_step self OpStop = snd (stop self)"

definition pd_run :: "pd \<Rightarrow> pd_op list \<Rightarrow> pd" where
  "pd_run self ops = foldl pd_step self ops"

fun is_setTorrent :: "pd_op \<Rightarrow> bool" where
  "is_setTorrent (OpSetTorrent torrent dht_ready) = True"
| "is_setTorrent x = False"

fun is_stop :: "pd_op \<Rightarrow> bool" where
  "is_stop OpStop = True"
| "is_stop x = False"

text \<open>The DHT objects destroyed by a list of calls, in the order of the calls.\<close>

fun dht_destroys :: "pd_call list \<Rightarrow> dht_handle list" where
  "dht_destroys [] = []"
| "dht_destroys (PDhtDestroy h # cs) = h # dht_destroys cs"
| "dht_destroys (c # cs) = dht_destroys cs"

text \<open>What a source event is forwarded as by a coordinator with one listener on each.\<close>

fun forwarded :: "source_event \<Rightarrow> pd_event list" where
  "forwarded (DhtPeer addr) = [Peer addr]"
| "forwarded (TrackerPeer addr) = [Peer addr]"
| "forwarded (TrackerError err) = [Warning err]"
| "forwarded AnnounceDone = [DhtAnnounce]"
| "forwarded ev = []"

fun op_forwarded :: "pd_op \<Rightarrow> pd_event list" where
  "op_forwarded (OpEvent ev) = forwarded ev"
| "op_forwarded x = []"

section \<open>Sample data\<close>

text \<open>
  A content identifier as a Buffer and as hex text, a descriptor that carries it, a
  stand-in for the bytes of a torrent file, and stand-ins for the two parsers: the
  first reads the 40 characters after the magnet prefix, the second knows the
  stand-in file only.
\<close>

definition sample_bytes :: "byte list" where
  "sample_bytes = [0xd2, 0x47, 0x4e, 0x86, 0xc9, 0x5b, 0x19, 0xb8, 0xbc, 0xfd,
                   0xb9, 0x2b, 0xc1, 0x2c, 0x9d, 0x44, 0x66, 0x7c, 0xfa, 0x36]"

definition sample_hash :: string where
  "sample_hash = ''d2474e86c95b19b8bcfdb92bc12c9d44667cfa36''"

definition other_hash :: string where
  "other_hash = ''0000000000000000000000000000000000000000''"

definition sample_descriptor :: parsed_torrent where
  "sample_descriptor =
     \<lparr> p_infoHash = JString sample_hash, p_announce = [], p_length = Some 362017 \<rparr>"

definition sample_file :: "byte list" where
  "sample_file = replicate 64 0x64"

definition sample_env :: env where
  "sample_env =
     \<lparr> magnet = (\<lambda>s. if take 20 s = ''magnet:?xt=urn:btih:''
                      then Some \<lparr> m_infoHash = JString (take 40 (drop 20 s)) \<rparr>
                      else Some \<lparr> m_infoHash = JUndefined \<rparr>),
       parseTorrent = (\<lambda>f. if f = sample_file then Some sample_descriptor else None) \<rparr>"

text \<open>Two calls of \<^verbatim>\<open>add\<close>, a client with nothing registered, and client options.\<close>

definition sample_add :: add_call where
  "sample_add = \<lparr> a_torrentId = IdString sample_hash, a_opts = OptsNone, a_ontorrent = None \<rparr>"

definition other_add :: add_call where
  "other_add = \<lparr> a_torrentId = IdString other_hash, a_opts = OptsObject 7,
                 a_ontorrent = Some 1 \<rparr>"

definition sample_opts :: client_opts where
  "sample_opts = \<lparr> co_dht = True, co_trackers = True, co_dhtPort = None,
                   co_torrentPort = None \<rparr>"

definition empty_client :: client where
  "empty_client =
     \<lparr> ready = True, torrents = [], dht = True, dhtPort = Some 20000,
       torrentPort = Some 6881, trackersEnabled = True, ready_listeners = [],
       torrent_listeners = [], emitted = [], calls = [], next_ref = 0, par_pending = 0,
       par_error = None, par_fired = True \<rparr>"

text \<open>
  Inputs that bring the sample client up with three calls of \<^verbatim>\<open>add\<close> on the way,
  two of them alike, and inputs in which the port cannot be acquired.
\<close>

definition sample_run :: "input list" where
  "sample_run =
     [Add sample_add, PortFound None (Some 6881), Add other_add, Add sample_add, DhtReady]"

definition failing_run :: "input list" where
  "failing_run = [Add sample_add, PortFound (Some (External 1)) None, DhtReady]"

text \<open>A client with a DHT and three registered torrents.\<close>

definition three_torrents :: client where
  "three_torrents =
     empty_client
       \<lparr> torrents :=
           [Torrent_new sample_env 0 (IdString sample_hash) (torrent_options empty_client None),
            Torrent_new sample_env 1 (IdString other_hash) (torrent_options empty_client None),
            Torrent_new sample_env 2 (IdBuffer sample_bytes) (torrent_options empty_client None)],
         next_ref := 3 \<rparr>"

definition one_torrent :: client where
  "one_torrent =
     empty_client
       \<lparr> torrents :=
           [Torrent_new sample_env 0 (IdString sample_hash) (torrent_options empty_client None)],
         next_ref := 1 \<rparr>"

text \<open>
  Options for a coordinator: with a peer id and a DHT of the caller's, with a peer id
  and \<^verbatim>\<open>dht: null\<close>, and with the empty string for a peer id.
\<close>

definition borrowing_opts :: pd_opts where
  "borrowing_opts =
     no_opts \<lparr> po_peerId := Some (PeerIdString ''-WW0001-0123456789ab''),
               po_dht := Some (OptHandle 5), po_torrentPort := Some 6881 \<rparr>"

definition owning_opts :: pd_opts where
  "owning_opts =
     no_opts \<lparr> po_peerId := Some (PeerIdString ''-WW0001-0123456789ab''),
               po_dht := Some OptNull, po_torrentPort := Some 6881 \<rparr>"

definition empty_id_opts :: pd_opts where
  "empty_id_opts = no_opts \<lparr> po_peerId := Some (PeerIdString []) \<rparr>"

section \<open>Invariants of the readiness barrier\<close>

text \<open>
  While the client is not ready nothing is registered and the calls of \<^verbatim>\<open>add\<close> so far
  wait as listeners, in their order; once it is ready the callback of the bootstrap has
  fired and the registry is what the calls so far asked for, in their order.
\<close>

definition queue_inv :: "client \<Rightarrow> add_call list \<Rightarrow> bool" where
  "queue_inv c as =
     (if ready c then par_fired c \<and> map applied (torrents c) = map requested as
      else torrents c = [] \<and> ready_listeners c = as)"

text \<open>
  The state of the bootstrap run after the inputs \<open>ins\<close>, for \<open>n\<close> tasks of which
  none has reported twice: the tasks still pending, whether one has failed, whether the
  callback has fired, and what the client has emitted and whether it is ready.
\<close>

definition barrier_inv :: "policy \<Rightarrow> nat \<Rightarrow> client \<Rightarrow> input list \<Rightarrow> bool" where
  "barrier_inv p n c ins =
     (par_pending c = int n - int (length (reported ins)) \<and>
      (par_error c = None) = (\<not> failed ins) \<and>
      par_fired c = (length (reported ins) = n \<or> (p = FailFast \<and> failed ins)) \<and>
      (if par_fired c
       then if failed ins then (\<exists>x. emitted c = [EvError x]) \<and> \<not> ready c
            else emitted c = [EvReady] \<and> ready c
       else emitted c = [] \<and> \<not> ready c))"

section \<open>Invariant of a started coordinator\<close>

text \<open>
  A coordinator whose tracker client exists listens once to each of the DHT's
  \<^verbatim>\<open>peer\<close>, the tracker's \<^verbatim>\<open>peer\<close> and the tracker's \<^verbatim>\<open>error\<close>.
\<close>

definition listening :: "pd \<Rightarrow> bool" where
  "listening self =
     (on_dht_peer self = 1 \<and> on_tracker_peer self = 1 \<and> on_tracker_error self = 1 \<and>
      pd_tracker self = TrackerObject)"

section \<open>Properties\<close>

lemma foldl_plus_field:
  "foldl (\<lambda>total t. total + f t) (a::nat) ts = a + sum_list (map f ts)"
  by (induction ts arbitrary: a) simp_all

text \<open>
  C8. The ratio of a registry is 0 when the downloaded bytes of its torrents sum to 0, and
  the sum of the uploaded bytes divided by the sum of the downloaded bytes otherwise.
  For three torrents with uploaded 0, 100, 50 and downloaded 0, 200, 0 it is 0.75.
\<close>

theorem ratio_spec:
  "ratio ts =
     (if sum_list (map downloaded ts) = 0 then 0
      else real (sum_list (map uploaded ts)) / real (sum_list (map downloaded ts)))"
  by (simp add: ratio_def foldl_plus_field Let_def)

theorem ratio_example:
  "\<forall>t. ratio [t\<lparr>uploaded := 0, downloaded := 0\<rparr>,
               t\<lparr>uploaded := 100, downloaded := 200\<rparr>,
               t\<lparr>uploaded := 50, downloaded := 0\<rparr>] = 0.75"
proof
  fix t :: torrent
  show "ratio [t\<lparr>uploaded := 0, downloaded := 0\<rparr>,
               t\<lparr>uploaded := 100, downloaded := 200\<rparr>,
               t\<lparr>uploaded := 50, downloaded := 0\<rparr>] = 0.75"
    using ratio_spec [of "[t\<lparr>uploaded := 0, downloaded := 0\<rparr>,
               t\<lparr>uploaded := 100, downloaded := 200\<rparr>,
               t\<lparr>uploaded := 50, downloaded := 0\<rparr>]"]
    by simp
qed

subsection \<open>Identifier resolution\<close>

lemma length_hexByte: "length (hexByte b) = 2"
  by (simp add: hexByte_def)

lemma length_toString_hex: "length (toString_hex bs) = 2 * length bs"
  by (induction bs) (simp_all add: toString_hex_def length_hexByte)

lemma hexDigit_mem: "n < 16 \<Longrightarrow> hexDigits ! n \<in> set hexDigits"
  by (rule nth_mem) (simp add: hexDigits_def)

lemma unat_byte_less: "unat (b::byte) < 256"
  using unsigned_less [of b, where 'a = nat] by simp

lemma set_hexByte: "set (hexByte b) \<subseteq> set hexDigits"
proof -
  have "unat b div 16 < 16" using unat_byte_less [of b] by simp
  moreover have "unat b mod 16 < 16" by simp
  ultimately show ?thesis by (simp add: hexByte_def hexDigit_mem)
qed

lemma set_toString_hex: "set (toString_hex bs) \<subseteq> set hexDigits"
  using set_hexByte by (auto simp: toString_hex_def)

lemma hex_not_magnet: "set s \<subseteq> set hexDigits \<Longrightarrow> \<not> test_magnet s"
proof
  assume sub: "set s \<subseteq> set hexDigits" and m: "test_magnet s"
  have "CHR ''m'' \<in> set (take 7 s)" using m by (simp add: test_magnet_def)
  then have "CHR ''m'' \<in> set s" by (rule in_set_takeD)
  with sub have "CHR ''m'' \<in> set hexDigits" by blast
  then show False by (simp add: hexDigits_def)
qed

lemma toInfoHash_hex_string:
  assumes len: "length s = 40" and hex: "set s \<subseteq> set hexDigits"
  shows "toInfoHash e (IdString s) =
           (case magnet e (''magnet:?xt=urn:btih:'' @ s) of
              None \<Rightarrow> JNull | Some info \<Rightarrow> m_infoHash info)"
  using len hex_not_magnet [OF hex] by (simp add: toInfoHash_def)

lemma toInfoHash_magnet_uri:
  assumes len: "length s = 40"
  shows "toInfoHash e (IdString (''magnet:?xt=urn:btih:'' @ s)) =
           (case magnet e (''magnet:?xt=urn:btih:'' @ s) of
              None \<Rightarrow> JNull | Some info \<Rightarrow> m_infoHash info)"
  using len by (simp add: toInfoHash_def test_magnet_def)

text \<open>
  C1. Let \<open>b\<close> be a content identifier of 20 bytes and \<open>h\<close> its hex text. Where the
  magnet parser reads \<open>h\<close> from the magnet link that \<^verbatim>\<open>toInfoHash\<close> makes of \<open>h\<close>
  and from a magnet link \<open>uri\<close> of the torrent (which is not 32 characters long), the
  torrent parser reads \<open>h\<close> from a torrent file (which is not 20 bytes long), and a
  descriptor carries \<open>h\<close>, \<^verbatim>\<open>toInfoHash\<close> gives \<open>h\<close> for the hex text, the Buffer,
  the magnet link, the file and the descriptor; \<open>h\<close> is 40 characters, all lowercase
  hexadecimal digits.
\<close>

theorem toInfoHash_five_forms:
  assumes b: "length b = 20"
    and m: "magnet e (''magnet:?xt=urn:btih:'' @ toString_hex b) = Some info"
           "m_infoHash info = JString (toString_hex b)"
    and u: "test_magnet uri" "length uri \<noteq> 32" "magnet e uri = Some info'"
           "m_infoHash info' = JString (toString_hex b)"
    and f: "parseTorrent e file = Some t" "p_infoHash t = JString (toString_hex b)"
           "length file \<noteq> 20"
    and d: "p_infoHash d = JString (toString_hex b)"
  shows "toInfoHash e (IdString (toString_hex b)) = JString (toString_hex b) \<and>
         toInfoHash e (IdBuffer b) = JString (toString_hex b) \<and>
         toInfoHash e (IdString uri) = JString (toString_hex b) \<and>
         toInfoHash e (IdBuffer file) = JString (toString_hex b) \<and>
         toInfoHash e (IdParsed d) = JString (toString_hex b) \<and>
         length (toString_hex b) = 40 \<and> set (toString_hex b) \<subseteq> set hexDigits"
proof -
  have len: "length (toString_hex b) = 40" using b by (simp add: length_toString_hex)
  have hex: "set (toString_hex b) \<subseteq> set hexDigits" by (rule set_toString_hex)
  have ne: "toString_hex b \<noteq> []" using len by auto
  have 1: "toInfoHash e (IdString (toString_hex b)) = JString (toString_hex b)"
    using toInfoHash_hex_string [OF len hex, of e] m by simp
  have 2: "toInfoHash e (IdBuffer b) = JString (toString_hex b)"
    using b by (simp add: toInfoHash_def)
  have 3: "toInfoHash e (IdString uri) = JString (toString_hex b)"
    using u by (simp add: toInfoHash_def)
  have 4: "toInfoHash e (IdBuffer file) = JString (toString_hex b)"
    using f by (simp add: toInfoHash_def)
  have 5: "toInfoHash e (IdParsed d) = JString (toString_hex b)"
    using d ne by (simp add: toInfoHash_def)
  from 1 2 3 4 5 len hex show ?thesis by blast
qed

lemma hex_sample: "toString_hex sample_bytes = sample_hash"
  by (simp add: toString_hex_def hexByte_def hexDigits_def sample_bytes_def sample_hash_def)

lemma sample_magnet:
  "magnet sample_env (''magnet:?xt=urn:btih:'' @ sample_hash) =
     Some \<lparr> m_infoHash = JString sample_hash \<rparr>"
  by (simp add: sample_env_def sample_hash_def)

lemma sample_uri:
  "magnet sample_env (''magnet:?xt=urn:btih:'' @ sample_hash @ ''&dn=leaves'') =
     Some \<lparr> m_infoHash = JString sample_hash \<rparr>"
  by (simp add: sample_env_def sample_hash_def)

theorem toInfoHash_five_forms_witness:
  "toInfoHash sample_env (IdString sample_hash) = JString sample_hash \<and>
   toInfoHash sample_env (IdBuffer sample_bytes) = JString sample_hash \<and>
   toInfoHash sample_env (IdString (''magnet:?xt=urn:btih:'' @ sample_hash @ ''&dn=leaves'')) =
     JString sample_hash \<and>
   toInfoHash sample_env (IdBuffer sample_file) = JString sample_hash \<and>
   toInfoHash sample_env (IdParsed sample_descriptor) = JString sample_hash \<and>
   length sample_hash = 40"
proof -
  have b: "length sample_bytes = 20" by (simp add: sample_bytes_def)
  have m: "magnet sample_env (''magnet:?xt=urn:btih:'' @ toString_hex sample_bytes) =
             Some \<lparr> m_infoHash = JString sample_hash \<rparr>"
    unfolding hex_sample by (rule sample_magnet)
  have m': "m_infoHash \<lparr> m_infoHash = JString sample_hash \<rparr> =
              JString (toString_hex sample_bytes)"
    by (simp add: hex_sample)
  have u1: "test_magnet (''magnet:?xt=urn:btih:'' @ sample_hash @ ''&dn=leaves'')"
    by (simp add: test_magnet_def)
  have u2: "length (''magnet:?xt=urn:btih:'' @ sample_hash @ ''&dn=leaves'') \<noteq> 32"
    by (simp add: sample_hash_def)
  have f: "parseTorrent sample_env sample_file = Some sample_descriptor"
    by (simp add: sample_env_def)
  have d: "p_infoHash sample_descriptor = JString (toString_hex sample_bytes)"
    by (simp add: hex_sample sample_descriptor_def)
  have l: "length sample_file \<noteq> 20" by (simp add: sample_file_def)
  show ?thesis
    using toInfoHash_five_forms [OF b m m' u1 u2 sample_uri m' f d l d]
    by (simp add: hex_sample)
qed

subsection \<open>The registry\<close>

lemma get_loop_None: "\<forall>t\<in>set ts. infoHash t \<noteq> h \<Longrightarrow> get_loop ts h = None"
  by (induction ts) simp_all

lemma get_loop_append_absent:
  "\<forall>t\<in>set ts. infoHash t \<noteq> h \<Longrightarrow> get_loop (ts @ us) h = get_loop us h"
  by (induction ts) simp_all

lemma length_sample_bytes: "length sample_bytes = 20"
  by (simp add: sample_bytes_def)

lemma sample_toInfoHash [simp]:
  "toInfoHash sample_env (IdString sample_hash) = JString sample_hash"
  "toInfoHash sample_env (IdString other_hash) = JString other_hash"
  "toInfoHash sample_env (IdBuffer sample_bytes) = JString sample_hash"
  using length_sample_bytes
  by (simp_all add: toInfoHash_def hex_sample)
     (simp_all add: test_magnet_def sample_env_def sample_hash_def other_hash_def)

lemma hashes_differ: "sample_hash \<noteq> other_hash"
  by (simp add: sample_hash_def other_hash_def)

text \<open>
  C6. When no registered torrent has the content identifier the torrent id resolves to,
  \<^verbatim>\<open>remove\<close> throws the error that names the id and leaves the whole client, its
  registry included, as it was.
\<close>

theorem remove_absent:
  assumes "\<forall>t\<in>set (torrents c). infoHash t \<noteq> toInfoHash e torrentId"
  shows "Client_remove e c torrentId cb = (Some (NoTorrentWithId torrentId), c)"
  using get_loop_None [OF assms] by (simp add: Client_remove_def Client_get_def)

theorem remove_absent_witness:
  "Client_remove sample_env one_torrent (IdString other_hash) CbNone =
     (Some (NoTorrentWithId (IdString other_hash)), one_torrent)"
  using remove_absent [of one_torrent sample_env "IdString other_hash" CbNone] hashes_differ
  by (simp add: one_torrent_def Torrent_new_def)

text \<open>
  C9. \<^verbatim>\<open>add\<close> appends the torrent it constructs whatever is registered. After two calls
  with one torrent id that resolves to \<open>h\<close> the registry ends with two entries, distinct
  objects, both with the content identifier \<open>h\<close>; and if no entry had \<open>h\<close> before,
  \<^verbatim>\<open>get\<close> for the id gives the first of the two.
\<close>

theorem add_twice:
  assumes h: "toInfoHash e torrentId = JString h"
    and a: "a_torrentId a1 = torrentId" "a_torrentId a2 = torrentId"
    and r1: "Client_add_direct e c a1 = (t1, c1)"
    and r2: "Client_add_direct e c1 a2 = (t2, c2)"
  shows "torrents c1 = torrents c @ [t1] \<and> torrents c2 = torrents c @ [t1, t2] \<and>
         t_ref t1 \<noteq> t_ref t2 \<and> infoHash t1 = JString h \<and> infoHash t2 = JString h \<and>
         ((\<forall>t\<in>set (torrents c). infoHash t \<noteq> JString h) \<longrightarrow>
            Client_get e c2 torrentId = Some t1)"
proof -
  obtain o1 f1 where s1: "shift_args a1 = (o1, f1)" by (cases "shift_args a1")
  obtain o2 f2 where s2: "shift_args a2 = (o2, f2)" by (cases "shift_args a2")
  have t1: "t1 = Torrent_new e (next_ref c) torrentId (torrent_options c o1)"
    and c1: "torrents c1 = torrents c @ [t1]" and n1: "next_ref c1 = Suc (next_ref c)"
    using r1 a s1 by (auto simp: Client_add_direct_def Let_def)
  have t2: "t2 = Torrent_new e (next_ref c1) torrentId (torrent_options c1 o2)"
    and c2: "torrents c2 = torrents c1 @ [t2]"
    using r2 a s2 by (auto simp: Client_add_direct_def Let_def)
  have i1: "infoHash t1 = JString h" using t1 h by (simp add: Torrent_new_def)
  have i2: "infoHash t2 = JString h" using t2 h by (simp add: Torrent_new_def)
  have ne: "t_ref t1 \<noteq> t_ref t2" using t1 t2 n1 by (simp add: Torrent_new_def)
  have g: "Client_get e c2 torrentId = Some t1"
    if "\<forall>t\<in>set (torrents c). infoHash t \<noteq> JString h"
    using get_loop_append_absent [OF that, of "[t1, t2]"] c1 c2 i1 h
    by (simp add: Client_get_def)
  from c1 c2 i1 i2 ne g show ?thesis by simp
qed


theorem add_twice_witness:
  "torrents (snd (Client_add_direct sample_env
       (snd (Client_add_direct sample_env empty_client sample_add)) sample_add)) =
     [fst (Client_add_direct sample_env empty_client sample_add),
      fst (Client_add_direct sample_env
             (snd (Client_add_direct sample_env empty_client sample_add)) sample_add)] \<and>
   Client_get sample_env
     (snd (Client_add_direct sample_env
        (snd (Client_add_direct sample_env empty_client sample_add)) sample_add))
     (IdString sample_hash) =
     Some (fst (Client_add_direct sample_env empty_client sample_add))"
  using add_twice [of sample_env "IdString sample_hash" sample_hash sample_add sample_add
      empty_client "fst (Client_add_direct sample_env empty_client sample_add)"
      "snd (Client_add_direct sample_env empty_client sample_add)"
      "fst (Client_add_direct sample_env
             (snd (Client_add_direct sample_env empty_client sample_add)) sample_add)"
      "snd (Client_add_direct sample_env
             (snd (Client_add_direct sample_env empty_client sample_add)) sample_add)"]
  by (simp add: sample_add_def empty_client_def)

subsection \<open>Teardown of the client\<close>

text \<open>
  C3. \<^verbatim>\<open>destroy\<close> of the clients that have \<^verbatim>\<open>toInfoHash\<close> hands \<^verbatim>\<open>parallel\<close> one
  task per registered torrent and none for the DHT, where \<^verbatim>\<open>destroy\<close> of the third
  client hands it one task more when there is a DHT. On a client with a DHT and three
  registered torrents: the DHT is destroyed by a call that carries no callback, three
  tasks are handed over, and starting them removes every torrent and destroys it with
  the \<^verbatim>\<open>done\<close> of its task; the task list of the third client has four entries.
\<close>

theorem destroy_three_torrents:
  "length (destroy_tasks c) = length (torrents c) \<and>
   DhtDestroyTask \<notin> set (destroy_tasks c) \<and>
   length (destroy_tasks_pushed c) = length (torrents c) + (if dht c then 1 else 0) \<and>
   length (torrents three_torrents) = 3 \<and> dht three_torrents \<and>
   length (destroy_tasks three_torrents) = 3 \<and>
   fst (Client_destroy sample_env three_torrents (CbUser 0)) = None \<and>
   calls (snd (Client_destroy sample_env three_torrents (CbUser 0))) =
     [DhtDestroy CbNone, TorrentDestroy 0 (CbDone 0), TorrentDestroy 1 (CbDone 1),
      TorrentDestroy 2 (CbDone 2)] \<and>
   torrents (snd (Client_destroy sample_env three_torrents (CbUser 0))) = [] \<and>
   length (destroy_tasks_pushed three_torrents) = 4"
proof -
  have general: "length (destroy_tasks c) = length (torrents c) \<and>
      DhtDestroyTask \<notin> set (destroy_tasks c) \<and>
      length (destroy_tasks_pushed c) = length (torrents c) + (if dht c then 1 else 0)"
    by (auto simp: destroy_tasks_def destroy_tasks_pushed_def)
  have sample: "length (torrents three_torrents) = 3 \<and> dht three_torrents \<and>
      length (destroy_tasks three_torrents) = 3 \<and>
      fst (Client_destroy sample_env three_torrents (CbUser 0)) = None \<and>
      calls (snd (Client_destroy sample_env three_torrents (CbUser 0))) =
        [DhtDestroy CbNone, TorrentDestroy 0 (CbDone 0), TorrentDestroy 1 (CbDone 1),
         TorrentDestroy 2 (CbDone 2)] \<and>
      torrents (snd (Client_destroy sample_env three_torrents (CbUser 0))) = [] \<and>
      length (destroy_tasks_pushed three_torrents) = 4"
    by (simp add: Client_destroy_def destroy_tasks_def destroy_tasks_pushed_def
        parallel_teardown_def three_torrents_def empty_client_def Torrent_new_def
        Client_remove_def Client_get_def splice1_def hashes_differ Let_def)
  from general sample show ?thesis by blast
qed

subsection \<open>The readiness barrier\<close>

lemma add_frame:
  "ready (Client_add e c a) = ready c"
  "emitted (Client_add e c a) = emitted c"
  "par_pending (Client_add e c a) = par_pending c"
  "par_error (Client_add e c a) = par_error c"
  "par_fired (Client_add e c a) = par_fired c"
  by (simp_all add: Client_add_def Let_def split: prod.split)

lemma add_ready_torrents:
  "ready c \<Longrightarrow>
   map applied (torrents (Client_add e c a)) = map applied (torrents c) @ [requested a]"
  by (simp add: Client_add_def Let_def applied_def requested_def Torrent_new_def
      torrent_options_def split: prod.split)

lemma add_waiting:
  "\<not> ready c \<Longrightarrow> torrents (Client_add e c a) = torrents c \<and>
     ready_listeners (Client_add e c a) = ready_listeners c @ [a]"
  by (simp add: Client_add_def)

lemma replay_frame:
  "ready (replay e as c) = ready c \<and> emitted (replay e as c) = emitted c \<and>
   par_pending (replay e as c) = par_pending c \<and> par_error (replay e as c) = par_error c \<and>
   par_fired (replay e as c) = par_fired c"
  by (induction as arbitrary: c) (simp_all add: add_frame)

lemma replay_torrents:
  "ready c \<Longrightarrow>
   map applied (torrents (replay e as c)) = map applied (torrents c) @ map requested as"
proof (induction as arbitrary: c)
  case Nil
  then show ?case by simp
next
  case (Cons a as)
  let ?c1 = "Client_add e (c\<lparr>ready_listeners := remove1 a (ready_listeners c)\<rparr>) a"
  have r: "ready ?c1" using Cons.prems by (simp add: add_frame)
  have "map applied (torrents ?c1) = map applied (torrents c) @ [requested a]"
    using add_ready_torrents [of "c\<lparr>ready_listeners := remove1 a (ready_listeners c)\<rparr>" e a]
      Cons.prems by simp
  with Cons.IH [OF r] show ?case by simp
qed

lemma on_bootstrap_None:
  "ready (on_bootstrap e None c) \<and> emitted (on_bootstrap e None c) = emitted c @ [EvReady] \<and>
   par_pending (on_bootstrap e None c) = par_pending c \<and>
   par_error (on_bootstrap e None c) = par_error c \<and>
   par_fired (on_bootstrap e None c) = par_fired c \<and>
   map applied (torrents (on_bootstrap e None c)) =
     map applied (torrents c) @ map requested (ready_listeners c)"
  using replay_torrents [of "c\<lparr>ready := True, emitted := emitted c @ [EvReady]\<rparr>" e "ready_listeners c"]
  by (simp add: on_bootstrap_def emit_ready_def replay_frame)

lemma on_bootstrap_Some:
  "on_bootstrap e (Some x) c = c\<lparr>emitted := emitted c @ [EvError x]\<rparr>"
  by (simp add: on_bootstrap_def)

lemma adds_append: "adds (xs @ ys) = adds xs @ adds ys"
  by (induction xs rule: adds.induct) simp_all

lemma reported_append: "reported (xs @ ys) = reported xs @ reported ys"
  by (induction xs rule: reported.induct) simp_all

lemma run_snoc: "run p e c (ins @ [i]) = step p e (run p e c ins) i"
  by (simp add: run_def)

lemma start_bootstrap_frame:
  "ready (foldl start_bootstrap c ts) = ready c \<and>
   emitted (foldl start_bootstrap c ts) = emitted c \<and>
   torrents (foldl start_bootstrap c ts) = torrents c \<and>
   ready_listeners (foldl start_bootstrap c ts) = ready_listeners c \<and>
   par_pending (foldl start_bootstrap c ts) = par_pending c \<and>
   par_error (foldl start_bootstrap c ts) = par_error c \<and>
   par_fired (foldl start_bootstrap c ts) = par_fired c"
proof (induction ts arbitrary: c)
  case Nil
  then show ?case by simp
next
  case (Cons t ts)
  show ?case using Cons.IH [of "start_bootstrap c t"] by (cases t) simp_all
qed

lemma queue_inv_new: "queue_inv (Client_new p e opts) []"
proof (cases "bootstrap_tasks opts = []")
  case True
  then show ?thesis
    using on_bootstrap_None [of e]
    by (simp add: Client_new_def queue_inv_def Let_def)
next
  case False
  then show ?thesis
    by (simp add: Client_new_def queue_inv_def Let_def start_bootstrap_frame)
qed

lemma queue_inv_par_done:
  assumes "queue_inv c as"
  shows "queue_inv (par_done p e err c) as"
proof (cases "par_fired c")
  case True
  then show ?thesis using assms
    by (cases p) (simp_all add: par_done_def Let_def queue_inv_def)
next
  case False
  then have nr: "\<not> ready c" using assms by (auto simp: queue_inv_def)
  then have q: "torrents c = []" "ready_listeners c = as"
    using assms by (simp_all add: queue_inv_def)
  have fire: "queue_inv (on_bootstrap e x (c\<lparr>par_pending := n, par_error := y, par_fired := True\<rparr>)) as"
    for x n y
  proof (cases x)
    case None
    show ?thesis
      using on_bootstrap_None [of e "c\<lparr>par_pending := n, par_error := y, par_fired := True\<rparr>"] q
      by (simp add: None queue_inv_def)
  next
    case (Some z)
    then show ?thesis using nr q by (simp add: on_bootstrap_Some queue_inv_def)
  qed
  have stay: "queue_inv (c\<lparr>par_pending := n, par_error := y\<rparr>) as" for n y
    using assms by (simp add: queue_inv_def)
  show ?thesis
    using fire stay by (cases p) (simp_all add: par_done_def Let_def)
qed

lemma queue_inv_step:
  assumes "queue_inv c as"
  shows "queue_inv (step p e c i) (as @ adds [i])"
proof (cases i)
  case (PortFound err port)
  have "queue_inv (c\<lparr>torrentPort := port\<rparr>) as" using assms by (simp add: queue_inv_def)
  then show ?thesis using PortFound by (simp add: queue_inv_par_done)
next
  case DhtReady
  then show ?thesis using assms by (simp add: queue_inv_par_done)
next
  case (DhtListening port)
  then show ?thesis using assms by (simp add: queue_inv_def)
next
  case (Add a)
  show ?thesis
  proof (cases "ready c")
    case True
    then show ?thesis using assms Add add_ready_torrents [of c e a]
      by (simp add: queue_inv_def add_frame)
  next
    case False
    then show ?thesis using assms Add add_waiting [of c e a]
      by (simp add: queue_inv_def add_frame)
  qed
qed

lemma queue_inv_run: "queue_inv (run p e (Client_new p e opts) ins) (adds ins)"
proof (induction ins rule: rev_induct)
  case Nil
  then show ?case by (simp add: run_def queue_inv_new)
next
  case (snoc i ins)
  then show ?case using queue_inv_step [OF snoc.IH, of p e i]
    by (simp add: run_snoc adds_append)
qed

lemma failed_snoc: "failed (ins @ [i]) = (failed ins \<or> failure i)"
  by (auto simp: failed_def)

lemma barrier_inv_new:
  "barrier_inv p (length (bootstrap_tasks opts)) (Client_new p e opts) []"
proof (cases "bootstrap_tasks opts = []")
  case True
  then show ?thesis
    using on_bootstrap_None [of e]
    by (simp add: Client_new_def barrier_inv_def Let_def failed_def)
next
  case False
  then show ?thesis
    by (simp add: Client_new_def barrier_inv_def Let_def start_bootstrap_frame failed_def)
qed

lemma barrier_inv_done:
  assumes inv: "barrier_inv p n c ins"
    and k: "length (reported ins) < n"
    and i: "reported [i] = [t]" "failure i = (err \<noteq> None)"
    and same: "par_pending c' = par_pending c" "par_error c' = par_error c"
      "par_fired c' = par_fired c" "emitted c' = emitted c" "ready c' = ready c"
  shows "barrier_inv p n (par_done p e err c') (ins @ [i])"
proof -
  have pend: "par_pending c - 1 = int n - int (length (reported (ins @ [i])))"
    using inv i by (simp add: barrier_inv_def reported_append)
  have zero: "(par_pending c - 1 = 0) = (length (reported (ins @ [i])) = n)"
    using pend by auto
  have len: "length (reported (ins @ [i])) = Suc (length (reported ins))"
    using i by (simp add: reported_append)
  have fired: "par_fired c = (p = FailFast \<and> failed ins)"
    using inv k by (simp add: barrier_inv_def)
  have quiet: "\<not> par_fired c \<Longrightarrow> emitted c = [] \<and> \<not> ready c"
    using inv by (simp add: barrier_inv_def)
  have loud: "par_fired c \<Longrightarrow> (\<exists>x. emitted c = [EvError x]) \<and> \<not> ready c"
    using inv fired by (auto simp: barrier_inv_def)
  have err0: "(par_error c = None) = (\<not> failed ins)"
    using inv by (simp add: barrier_inv_def)
  show ?thesis
  proof (cases p)
    case Join
    then have nf: "\<not> par_fired c" using fired by simp
    show ?thesis
      using Join nf quiet err0 zero pend same i(2) on_bootstrap_None [of e]
      by (cases err; cases "par_error c")
         (auto simp: barrier_inv_def par_done_def Let_def failed_snoc on_bootstrap_Some)
  next
    case FailFast
    show ?thesis
    proof (cases "par_fired c")
      case True
      then show ?thesis
        using FailFast fired loud err0 pend same i(2)
        by (cases err; cases "par_error c")
           (auto simp: barrier_inv_def par_done_def Let_def failed_snoc)
    next
      case False
      then show ?thesis
        using FailFast fired quiet err0 zero pend same i(2) on_bootstrap_None [of e]
        by (cases err; cases "par_error c")
           (auto simp: barrier_inv_def par_done_def Let_def failed_snoc on_bootstrap_Some)
    qed
  qed
qed

lemma barrier_inv_step:
  assumes inv: "barrier_inv p n c ins"
    and k: "length (reported (ins @ [i])) \<le> n"
  shows "barrier_inv p n (step p e c i) (ins @ [i])"
proof (cases i)
  case (PortFound err port)
  have k': "length (reported ins) < n" using k PortFound by (simp add: reported_append)
  have f: "failure i = (err \<noteq> None)" using PortFound by (cases err) simp_all
  show ?thesis
    using barrier_inv_done [OF inv k', of i PortTask err "c\<lparr>torrentPort := port\<rparr>" e] f PortFound
    by simp
next
  case DhtReady
  have k': "length (reported ins) < n" using k DhtReady by (simp add: reported_append)
  show ?thesis
    using barrier_inv_done [OF inv k', of i DhtTask None c e] DhtReady by simp
next
  case (DhtListening port)
  then show ?thesis using inv
    by (simp add: barrier_inv_def reported_append failed_snoc)
next
  case (Add a)
  then show ?thesis using inv
    by (simp add: barrier_inv_def reported_append failed_snoc add_frame)
qed

lemma barrier_inv_run:
  "length (reported ins) \<le> length (bootstrap_tasks opts) \<Longrightarrow>
   barrier_inv p (length (bootstrap_tasks opts)) (run p e (Client_new p e opts) ins) ins"
proof (induction ins rule: rev_induct)
  case Nil
  then show ?case by (simp add: run_def barrier_inv_new)
next
  case (snoc i ins)
  have "length (reported ins) \<le> length (bootstrap_tasks opts)"
    using snoc.prems by (simp add: reported_append)
  from barrier_inv_step [OF snoc.IH [OF this] snoc.prems, of e]
  show ?case by (simp add: run_snoc)
qed

lemma distinct_bootstrap_tasks: "distinct (bootstrap_tasks opts)"
  by (simp add: bootstrap_tasks_def)

lemma once_length:
  assumes "distinct (reported ins)" "set (reported ins) \<subseteq> set (bootstrap_tasks opts)"
  shows "length (reported ins) \<le> length (bootstrap_tasks opts)"
    and "(length (reported ins) = length (bootstrap_tasks opts)) =
         (set (bootstrap_tasks opts) \<subseteq> set (reported ins))"
proof -
  have c1: "card (set (reported ins)) = length (reported ins)"
    using assms(1) by (rule distinct_card)
  have c2: "card (set (bootstrap_tasks opts)) = length (bootstrap_tasks opts)"
    using distinct_bootstrap_tasks by (rule distinct_card)
  have le: "card (set (reported ins)) \<le> card (set (bootstrap_tasks opts))"
    using assms(2) by (simp add: card_mono)
  show "length (reported ins) \<le> length (bootstrap_tasks opts)" using c1 c2 le by simp
  show "(length (reported ins) = length (bootstrap_tasks opts)) =
         (set (bootstrap_tasks opts) \<subseteq> set (reported ins))"
  proof
    assume "length (reported ins) = length (bootstrap_tasks opts)"
    then have "card (set (reported ins)) = card (set (bootstrap_tasks opts))"
      using c1 c2 by simp
    then have "set (reported ins) = set (bootstrap_tasks opts)"
      using assms(2) by (simp add: card_subset_eq)
    then show "set (bootstrap_tasks opts) \<subseteq> set (reported ins)" by simp
  next
    assume "set (bootstrap_tasks opts) \<subseteq> set (reported ins)"
    then have "set (reported ins) = set (bootstrap_tasks opts)" using assms(2) by auto
    then show "length (reported ins) = length (bootstrap_tasks opts)" using c1 c2 by simp
  qed
qed

lemma bootstrap_sample: "bootstrap_tasks sample_opts = [PortTask, DhtTask]"
  by (simp add: bootstrap_tasks_def sample_opts_def port_truthy_def)

lemma sample_run_ready:
  "ready (run Join sample_env (Client_new Join sample_env sample_opts) sample_run)"
proof -
  have "length (reported sample_run) \<le> length (bootstrap_tasks sample_opts)"
    by (simp add: sample_run_def bootstrap_sample)
  from barrier_inv_run [OF this, of Join sample_env]
  show ?thesis
    by (simp add: barrier_inv_def sample_run_def bootstrap_sample failed_def
        split: if_splits)
qed

text \<open>
  C2. After any inputs to a new client, calls of \<^verbatim>\<open>add\<close> among reports of the
  bootstrap tasks: while the client is not ready no torrent is registered and the calls
  so far wait in the order they were made; when it is ready the registry holds, in the
  order of the calls, one torrent for each call, constructed from the torrent id and the
  options of that call. So the calls made before the client was ready are applied in the
  order they were made, each once, alike or not.
\<close>

theorem add_fifo:
  "(if ready (run p e (Client_new p e opts) ins)
    then map applied (torrents (run p e (Client_new p e opts) ins)) = map requested (adds ins)
    else torrents (run p e (Client_new p e opts) ins) = [] \<and>
         ready_listeners (run p e (Client_new p e opts) ins) = adds ins)"
  using queue_inv_run [of p e opts ins] by (simp add: queue_inv_def)

theorem add_fifo_witness:
  "ready (run Join sample_env (Client_new Join sample_env sample_opts) sample_run) \<and>
   map applied (torrents (run Join sample_env (Client_new Join sample_env sample_opts) sample_run)) =
     [(IdString sample_hash, None), (IdString other_hash, Some 7), (IdString sample_hash, None)]"
  using sample_run_ready add_fifo [of Join sample_env sample_opts sample_run]
  by (simp add: sample_run_def requested_def shift_args_def sample_add_def other_add_def)

text \<open>
  C5. Let no bootstrap task report twice. The client is ready exactly when every
  bootstrap task has reported and none has reported an error; it has emitted
  \<^verbatim>\<open>ready\<close> once if it is ready and never otherwise; and it has emitted an error, and
  nothing else, exactly when a task has failed and the runner has called back, which is
  when all tasks have reported or, for a runner that calls back at the first error, at
  once. So after a failure the client is never ready.
\<close>

theorem ready_barrier:
  assumes once: "distinct (reported ins)" "set (reported ins) \<subseteq> set (bootstrap_tasks opts)"
  shows "ready (run p e (Client_new p e opts) ins) =
           (set (bootstrap_tasks opts) \<subseteq> set (reported ins) \<and> \<not> failed ins) \<and>
         count_list (emitted (run p e (Client_new p e opts) ins)) EvReady =
           (if ready (run p e (Client_new p e opts) ins) then 1 else 0) \<and>
         (\<exists>x. emitted (run p e (Client_new p e opts) ins) = [EvError x]) =
           (failed ins \<and> (set (bootstrap_tasks opts) \<subseteq> set (reported ins) \<or> p = FailFast))"
proof -
  let ?c = "run p e (Client_new p e opts) ins"
  let ?n = "length (bootstrap_tasks opts)"
  have inv: "barrier_inv p ?n ?c ins"
    using once_length(1) [OF once] by (rule barrier_inv_run)
  have full: "(length (reported ins) = ?n) = (set (bootstrap_tasks opts) \<subseteq> set (reported ins))"
    by (rule once_length(2) [OF once])
  show ?thesis
    using inv full by (cases "par_fired ?c"; cases "failed ins") (auto simp: barrier_inv_def)
qed

theorem ready_barrier_witness:
  "ready (run Join sample_env (Client_new Join sample_env sample_opts) sample_run) \<and>
   count_list (emitted (run Join sample_env (Client_new Join sample_env sample_opts) sample_run))
     EvReady = 1 \<and>
   \<not> ready (run Join sample_env (Client_new Join sample_env sample_opts) failing_run) \<and>
   (\<exists>x. emitted (run Join sample_env (Client_new Join sample_env sample_opts) failing_run) =
        [EvError x])"
  using ready_barrier [of sample_run sample_opts Join sample_env]
    ready_barrier [of failing_run sample_opts Join sample_env]
  by (simp add: sample_run_def failing_run_def bootstrap_sample failed_def)

subsection \<open>The discovery coordinator\<close>

lemma dht_destroys_append: "dht_destroys (xs @ ys) = dht_destroys xs @ dht_destroys ys"
  by (induction xs rule: dht_destroys.induct) simp_all

lemma createDHT_error: "fst (createDHT port self) \<noteq> Some PeerIdRequired"
  by (simp add: createDHT_def Let_def split: dht_val.split)

text \<open>
  C10, as amended. When the options have no peer id or a falsy one (the empty string),
  or there are no options, the constructor throws \<^verbatim>\<open>peerId required\<close> with no call
  made on a DHT or a tracker client and none constructed; when the peer id is truthy
  the constructor does not throw that error.
\<close>

theorem peerId_required:
  "(\<not> peerId_truthy (po_peerId (given_opts arg)) \<longrightarrow>
      fst (PeerDiscovery_new arg) = Some PeerIdRequired \<and>
      pd_calls (snd (PeerDiscovery_new arg)) = [] \<and>
      pd_dht (snd (PeerDiscovery_new arg)) \<noteq> DhtObject Constructed \<and>
      pd_tracker (snd (PeerDiscovery_new arg)) \<noteq> TrackerObject) \<and>
   (peerId_truthy (po_peerId (given_opts arg)) \<longrightarrow>
      fst (PeerDiscovery_new arg) \<noteq> Some PeerIdRequired)"
proof -
  have "pd_dht (snd (PeerDiscovery_new arg)) \<noteq> DhtObject Constructed"
    if "\<not> peerId_truthy (po_peerId (given_opts arg))"
    using that by (cases "po_dht (given_opts arg)" rule: dht_of_opt.cases)
      (simp_all add: PeerDiscovery_new_def Let_def)
  moreover have "pd_tracker (snd (PeerDiscovery_new arg)) \<noteq> TrackerObject"
    if "\<not> peerId_truthy (po_peerId (given_opts arg))"
    using that by (simp add: PeerDiscovery_new_def Let_def split: option.split bool.split)
  ultimately show ?thesis
    using createDHT_error by (simp add: PeerDiscovery_new_def Let_def)
qed

theorem peerId_required_witness:
  "fst (PeerDiscovery_new None) = Some PeerIdRequired \<and>
   pd_calls (snd (PeerDiscovery_new None)) = [] \<and>
   fst (PeerDiscovery_new (Some borrowing_opts)) \<noteq> Some PeerIdRequired"
  using peerId_required [of None] peerId_required [of "Some borrowing_opts"]
  by (simp add: given_opts_def no_opts_def borrowing_opts_def)

text \<open>
  The options whose peer id is the empty string supply a peer id, and the constructor
  throws \<^verbatim>\<open>peerId required\<close> for them.
\<close>

theorem empty_peerId_counterexample:
  "po_peerId (given_opts (Some empty_id_opts)) \<noteq> None \<and>
   fst (PeerDiscovery_new (Some empty_id_opts)) = Some PeerIdRequired"
  by (simp add: PeerDiscovery_new_def given_opts_def empty_id_opts_def no_opts_def Let_def)

lemma lookup_frame:
  "pd_dht (snd (dhtLookupAndAnnounce self)) = pd_dht self \<and>
   pd_externalDHT (snd (dhtLookupAndAnnounce self)) = pd_externalDHT self \<and>
   pd_tracker (snd (dhtLookupAndAnnounce self)) = pd_tracker self \<and>
   pd_emitted (snd (dhtLookupAndAnnounce self)) = pd_emitted self \<and>
   on_dht_peer (snd (dhtLookupAndAnnounce self)) = on_dht_peer self \<and>
   on_tracker_peer (snd (dhtLookupAndAnnounce self)) = on_tracker_peer self \<and>
   on_tracker_error (snd (dhtLookupAndAnnounce self)) = on_tracker_error self \<and>
   dht_destroys (pd_calls (snd (dhtLookupAndAnnounce self))) = dht_destroys (pd_calls self)"
  by (simp add: dhtLookupAndAnnounce_def dht_destroys_append split: dht_val.split)

lemma repeat_lookup_frame:
  "pd_dht (((\<lambda>s. snd (dhtLookupAndAnnounce s)) ^^ n) self) = pd_dht self \<and>
   pd_externalDHT (((\<lambda>s. snd (dhtLookupAndAnnounce s)) ^^ n) self) = pd_externalDHT self \<and>
   pd_tracker (((\<lambda>s. snd (dhtLookupAndAnnounce s)) ^^ n) self) = pd_tracker self \<and>
   pd_emitted (((\<lambda>s. snd (dhtLookupAndAnnounce s)) ^^ n) self) = pd_emitted self \<and>
   on_dht_peer (((\<lambda>s. snd (dhtLookupAndAnnounce s)) ^^ n) self) = on_dht_peer self \<and>
   on_tracker_peer (((\<lambda>s. snd (dhtLookupAndAnnounce s)) ^^ n) self) = on_tracker_peer self \<and>
   on_tracker_error (((\<lambda>s. snd (dhtLookupAndAnnounce s)) ^^ n) self) =
     on_tracker_error self \<and>
   dht_destroys (pd_calls (((\<lambda>s. snd (dhtLookupAndAnnounce s)) ^^ n) self)) =
     dht_destroys (pd_calls self)"
  by (induction n) (simp_all add: lookup_frame)

lemma onPeer_times:
  "(onPeer addr ^^ n) self = self\<lparr> pd_emitted := pd_emitted self @ replicate n (Peer addr) \<rparr>"
  by (induction n) (simp_all add: onPeer_def replicate_append_same)

lemma onTrackerError_times:
  "(onTrackerError err ^^ n) self =
     self\<lparr> pd_emitted := pd_emitted self @ replicate n (Warning err) \<rparr>"
  by (induction n) (simp_all add: onTrackerError_def replicate_append_same)

lemma deliver_frame:
  "pd_dht (deliver self ev) = pd_dht self \<and>
   pd_externalDHT (deliver self ev) = pd_externalDHT self \<and>
   pd_tracker (deliver self ev) = pd_tracker self \<and>
   on_dht_peer (deliver self ev) = on_dht_peer self \<and>
   on_tracker_peer (deliver self ev) = on_tracker_peer self \<and>
   on_tracker_error (deliver self ev) = on_tracker_error self \<and>
   dht_destroys (pd_calls (deliver self ev)) = dht_destroys (pd_calls self)"
  by (cases ev)
     (simp_all add: repeat_lookup_frame dht_destroys_append onPeer_times onTrackerError_times
        onLookup_def onAnnounce_def split: option.split dht_val.split)

lemma createTracker_frame:
  "pd_dht (createTracker self) = pd_dht self \<and>
   pd_externalDHT (createTracker self) = pd_externalDHT self \<and>
   pd_emitted (createTracker self) = pd_emitted self \<and>
   on_dht_peer (createTracker self) = on_dht_peer self \<and>
   pd_tracker (createTracker self) \<noteq> TrackerTrue \<and>
   dht_destroys (pd_calls (createTracker self)) = dht_destroys (pd_calls self)"
  by (simp add: createTracker_def dht_destroys_append)

lemma setTorrent_frame:
  "pd_dht (snd (setTorrent t r self)) = pd_dht self \<and>
   pd_externalDHT (snd (setTorrent t r self)) = pd_externalDHT self \<and>
   pd_emitted (snd (setTorrent t r self)) = pd_emitted self \<and>
   on_dht_peer (snd (setTorrent t r self)) = on_dht_peer self \<and>
   pd_tracker (snd (setTorrent t r self)) \<noteq> TrackerTrue \<and>
   dht_destroys (pd_calls (snd (setTorrent t r self))) = dht_destroys (pd_calls self)"
  by (cases t; cases "pd_tracker self"; cases "pd_dht self")
     (simp_all add: setTorrent_def Let_def createTracker_def dhtLookupAndAnnounce_def
        dht_destroys_append split: sum.split)

lemma stop_frame:
  "pd_dht (snd (stop self)) = pd_dht self \<and>
   pd_externalDHT (snd (stop self)) = pd_externalDHT self \<and>
   pd_tracker (snd (stop self)) = pd_tracker self \<and>
   pd_emitted (snd (stop self)) = pd_emitted self \<and>
   on_dht_peer (snd (stop self)) = on_dht_peer self \<and>
   on_tracker_peer (snd (stop self)) = on_tracker_peer self \<and>
   on_tracker_error (snd (stop self)) = on_tracker_error self"
  by (cases "pd_tracker self"; cases "pd_dht self") (simp_all add: stop_def Let_def)

lemma stop_borrowed:
  "pd_externalDHT self \<Longrightarrow>
   dht_destroys (pd_calls (snd (stop self))) = dht_destroys (pd_calls self)"
  by (cases "pd_tracker self") (simp_all add: stop_def Let_def dht_destroys_append)

lemma stop_owned:
  assumes "pd_dht self = DhtObject h" "\<not> pd_externalDHT self" "pd_tracker self \<noteq> TrackerTrue"
  shows "fst (stop self) = None \<and>
         dht_destroys (pd_calls (snd (stop self))) = dht_destroys (pd_calls self) @ [h]"
  using assms by (cases "pd_tracker self") (simp_all add: stop_def Let_def dht_destroys_append)

lemma pd_run_Cons: "pd_run self (x # ops) = pd_run (pd_step self x) ops"
  by (simp add: pd_run_def)

lemma pd_run_append: "pd_run self (xs @ ys) = pd_run (pd_run self xs) ys"
  by (simp add: pd_run_def)

lemma borrowed_run:
  "pd_externalDHT self \<Longrightarrow>
   pd_externalDHT (pd_run self ops) \<and>
   dht_destroys (pd_calls (pd_run self ops)) = dht_destroys (pd_calls self)"
proof (induction ops arbitrary: self)
  case Nil
  then show ?case by (simp add: pd_run_def)
next
  case (Cons x ops)
  have "pd_externalDHT (pd_step self x) \<and>
        dht_destroys (pd_calls (pd_step self x)) = dht_destroys (pd_calls self)"
    using Cons.prems
    by (cases x) (simp_all add: setTorrent_frame deliver_frame stop_frame stop_borrowed)
  with Cons.IH [of "pd_step self x"] show ?case by (simp add: pd_run_Cons)
qed

lemma running_run:
  assumes "\<not> (\<exists>x\<in>set ops. is_stop x)"
  shows "pd_dht (pd_run self ops) = pd_dht self \<and>
         pd_externalDHT (pd_run self ops) = pd_externalDHT self \<and>
         dht_destroys (pd_calls (pd_run self ops)) = dht_destroys (pd_calls self) \<and>
         (pd_tracker self \<noteq> TrackerTrue \<or> (\<exists>x\<in>set ops. is_setTorrent x) \<longrightarrow>
            pd_tracker (pd_run self ops) \<noteq> TrackerTrue)"
  using assms
proof (induction ops arbitrary: self)
  case Nil
  then show ?case by (simp add: pd_run_def)
next
  case (Cons x ops)
  have ns: "\<not> (\<exists>x\<in>set ops. is_stop x)" using Cons.prems by simp
  have step: "pd_dht (pd_step self x) = pd_dht self \<and>
        pd_externalDHT (pd_step self x) = pd_externalDHT self \<and>
        dht_destroys (pd_calls (pd_step self x)) = dht_destroys (pd_calls self) \<and>
        (pd_tracker self \<noteq> TrackerTrue \<or> is_setTorrent x \<longrightarrow>
           pd_tracker (pd_step self x) \<noteq> TrackerTrue)"
    using Cons.prems by (cases x) (simp_all add: setTorrent_frame deliver_frame)
  show ?case
    using Cons.IH [OF ns, of "pd_step self x"] step by (auto simp: pd_run_Cons)
qed

lemma owned_run:
  assumes "pd_dht self = DhtObject h" "\<not> pd_externalDHT self" "pd_tracker self \<noteq> TrackerTrue"
  shows "dht_destroys (pd_calls (pd_run self ops)) =
           dht_destroys (pd_calls self) @ replicate (length (filter is_stop ops)) h"
  using assms
proof (induction ops arbitrary: self)
  case Nil
  then show ?case by (simp add: pd_run_def)
next
  case (Cons x ops)
  have keep: "pd_dht (pd_step self x) = DhtObject h" "\<not> pd_externalDHT (pd_step self x)"
    "pd_tracker (pd_step self x) \<noteq> TrackerTrue"
    using Cons.prems by (cases x; simp add: setTorrent_frame deliver_frame stop_frame)+
  have one: "dht_destroys (pd_calls (pd_step self x)) =
               dht_destroys (pd_calls self) @ (if is_stop x then [h] else [])"
    using Cons.prems stop_owned [of self h]
    by (cases x) (simp_all add: setTorrent_frame deliver_frame)
  show ?case
    using Cons.IH [OF keep] one by (simp add: pd_run_Cons)
qed

lemma new_borrowing:
  assumes "peerId_truthy (po_peerId opts)" "po_dht opts = Some (OptHandle h)"
  shows "fst (PeerDiscovery_new (Some opts)) = None"
    "pd_dht (snd (PeerDiscovery_new (Some opts))) = DhtObject (Supplied h)"
    "pd_externalDHT (snd (PeerDiscovery_new (Some opts)))"
    "pd_calls (snd (PeerDiscovery_new (Some opts))) = [PDhtOn (Supplied h) ''peer'']"
  using assms by (simp_all add: PeerDiscovery_new_def given_opts_def createDHT_def Let_def)

lemma new_owning:
  assumes "peerId_truthy (po_peerId opts)" "po_dht opts = Some OptNull"
  shows "fst (PeerDiscovery_new (Some opts)) = None"
    "pd_dht (snd (PeerDiscovery_new (Some opts))) = DhtObject Constructed"
    "\<not> pd_externalDHT (snd (PeerDiscovery_new (Some opts)))"
    "pd_calls (snd (PeerDiscovery_new (Some opts))) =
       [PDhtNew, PDhtListen (po_dhtPort opts), PDhtOn Constructed ''peer'']"
    "po_tracker opts = Some False \<Longrightarrow>
       pd_tracker (snd (PeerDiscovery_new (Some opts))) \<noteq> TrackerTrue"
  using assms by (simp_all add: PeerDiscovery_new_def given_opts_def createDHT_def Let_def)

text \<open>
  C4, as amended. Let the peer id be truthy. A coordinator given a DHT of the caller's is
  constructed without an error and destroys no DHT, whatever is done with it afterwards,
  any number of calls of \<^verbatim>\<open>stop\<close> included. A coordinator given \<^verbatim>\<open>dht: null\<close>
  constructs its DHT and destroys no DHT as long as \<^verbatim>\<open>stop\<close> is not called. When its
  tracker client exists or is disabled, \<^verbatim>\<open>stop\<close> does not throw and destroys the
  constructed DHT once; nothing that follows but another \<^verbatim>\<open>stop\<close> destroys it again,
  and every further \<^verbatim>\<open>stop\<close> does: the constructed DHT is destroyed as many times as
  \<^verbatim>\<open>stop\<close> is called, once when it is called once.
\<close>

theorem dht_ownership:
  assumes id: "peerId_truthy (po_peerId opts)"
  shows "(po_dht opts = Some (OptHandle h) \<longrightarrow>
            fst (PeerDiscovery_new (Some opts)) = None \<and>
            pd_dht (snd (PeerDiscovery_new (Some opts))) = DhtObject (Supplied h) \<and>
            dht_destroys (pd_calls (pd_run (snd (PeerDiscovery_new (Some opts))) ops)) = []) \<and>
         (po_dht opts = Some OptNull \<and>
          \<not> (\<exists>x\<in>set ops. is_stop x) \<and> \<not> (\<exists>x\<in>set ops'. is_stop x) \<and>
          ((\<exists>x\<in>set ops. is_setTorrent x) \<or> po_tracker opts = Some False) \<longrightarrow>
            fst (PeerDiscovery_new (Some opts)) = None \<and>
            pd_dht (snd (PeerDiscovery_new (Some opts))) = DhtObject Constructed \<and>
            dht_destroys (pd_calls (pd_run (snd (PeerDiscovery_new (Some opts))) ops)) = [] \<and>
            fst (stop (pd_run (snd (PeerDiscovery_new (Some opts))) ops)) = None \<and>
            dht_destroys (pd_calls (pd_run (snd (PeerDiscovery_new (Some opts)))
              (ops @ OpStop # ops'))) = [Constructed]) \<and>
         (po_dht opts = Some OptNull \<and> \<not> (\<exists>x\<in>set ops. is_stop x) \<and>
          ((\<exists>x\<in>set ops. is_setTorrent x) \<or> po_tracker opts = Some False) \<longrightarrow>
            dht_destroys (pd_calls (pd_run (snd (PeerDiscovery_new (Some opts)))
              (ops @ rest))) = replicate (length (filter is_stop rest)) Constructed)"
proof (intro conjI impI)
  let ?pd = "snd (PeerDiscovery_new (Some opts))"
  {
    assume b: "po_dht opts = Some (OptHandle h)"
    show "fst (PeerDiscovery_new (Some opts)) = None" by (rule new_borrowing(1) [OF id b])
    show "pd_dht ?pd = DhtObject (Supplied h)" by (rule new_borrowing(2) [OF id b])
    show "dht_destroys (pd_calls (pd_run ?pd ops)) = []"
      using borrowed_run [OF new_borrowing(3) [OF id b], of ops] new_borrowing(4) [OF id b]
      by simp
  }
  {
    assume a: "po_dht opts = Some OptNull \<and>
          \<not> (\<exists>x\<in>set ops. is_stop x) \<and> \<not> (\<exists>x\<in>set ops'. is_stop x) \<and>
          ((\<exists>x\<in>set ops. is_setTorrent x) \<or> po_tracker opts = Some False)"
    then have o: "po_dht opts = Some OptNull" and ns: "\<not> (\<exists>x\<in>set ops. is_stop x)"
      and ns': "\<not> (\<exists>x\<in>set ops'. is_stop x)"
      and started: "(\<exists>x\<in>set ops. is_setTorrent x) \<or> po_tracker opts = Some False"
      by simp_all
    show "fst (PeerDiscovery_new (Some opts)) = None" by (rule new_owning(1) [OF id o])
    show c: "pd_dht ?pd = DhtObject Constructed" by (rule new_owning(2) [OF id o])
    have r: "pd_dht (pd_run ?pd ops) = DhtObject Constructed"
      "\<not> pd_externalDHT (pd_run ?pd ops)"
      "dht_destroys (pd_calls (pd_run ?pd ops)) = []"
      "pd_tracker (pd_run ?pd ops) \<noteq> TrackerTrue"
      using running_run [OF ns, of ?pd] c new_owning(3,4,5) [OF id o] started by auto
    show "dht_destroys (pd_calls (pd_run ?pd ops)) = []" by (rule r(3))
    show "fst (stop (pd_run ?pd ops)) = None" using stop_owned [OF r(1,2,4)] by simp
    have "pd_run ?pd (ops @ OpStop # ops') = pd_run (snd (stop (pd_run ?pd ops))) ops'"
      by (simp add: pd_run_append pd_run_Cons)
    then show "dht_destroys (pd_calls (pd_run ?pd (ops @ OpStop # ops'))) = [Constructed]"
      using running_run [OF ns', of "snd (stop (pd_run ?pd ops))"] stop_owned [OF r(1,2,4)] r(3)
      by simp
  }
  {
    assume a: "po_dht opts = Some OptNull \<and> \<not> (\<exists>x\<in>set ops. is_stop x) \<and>
          ((\<exists>x\<in>set ops. is_setTorrent x) \<or> po_tracker opts = Some False)"
    then have o: "po_dht opts = Some OptNull" and ns: "\<not> (\<exists>x\<in>set ops. is_stop x)"
      and started: "(\<exists>x\<in>set ops. is_setTorrent x) \<or> po_tracker opts = Some False"
      by simp_all
    have r: "pd_dht (pd_run ?pd ops) = DhtObject Constructed"
      "\<not> pd_externalDHT (pd_run ?pd ops)"
      "dht_destroys (pd_calls (pd_run ?pd ops)) = []"
      "pd_tracker (pd_run ?pd ops) \<noteq> TrackerTrue"
      using running_run [OF ns, of ?pd] new_owning(2,3,4,5) [OF id o] started by auto
    show "dht_destroys (pd_calls (pd_run ?pd (ops @ rest))) =
            replicate (length (filter is_stop rest)) Constructed"
      using owned_run [OF r(1,2,4), of rest] r(3) by (simp add: pd_run_append)
  }
qed

text \<open>
  The coordinator that constructed its DHT and whose \<^verbatim>\<open>stop\<close> is called twice
  destroys that DHT twice.
\<close>

theorem second_stop_counterexample:
  "fst (PeerDiscovery_new (Some owning_opts)) = None \<and>
   pd_dht (snd (PeerDiscovery_new (Some owning_opts))) = DhtObject Constructed \<and>
   dht_destroys (pd_calls (pd_run (snd (PeerDiscovery_new (Some owning_opts)))
     [OpSetTorrent (IdString sample_hash) False, OpStop, OpStop])) =
     [Constructed, Constructed]"
  by (simp add: owning_opts_def no_opts_def PeerDiscovery_new_def given_opts_def
      createDHT_def Let_def pd_run_def setTorrent_def createTracker_def stop_def)

theorem dht_ownership_witness:
  "dht_destroys (pd_calls (pd_run (snd (PeerDiscovery_new (Some borrowing_opts)))
     [OpSetTorrent (IdString sample_hash) True, OpEvent (DhtPeer ''10.0.0.1:6881''), OpStop])) = [] \<and>
   dht_destroys (pd_calls (pd_run (snd (PeerDiscovery_new (Some owning_opts)))
     ([OpSetTorrent (IdString sample_hash) False, OpEvent DhtReadyEvent] @ OpStop #
      [OpEvent (DhtPeer ''10.0.0.1:6881'')]))) = [Constructed] \<and>
   dht_destroys (pd_calls (pd_run (snd (PeerDiscovery_new (Some owning_opts)))
     ([OpSetTorrent (IdString sample_hash) False, OpEvent DhtReadyEvent] @
      [OpStop, OpEvent (DhtPeer ''10.0.0.1:6881''), OpStop]))) = [Constructed, Constructed]"
  using dht_ownership [of borrowing_opts 5
      "[OpSetTorrent (IdString sample_hash) True, OpEvent (DhtPeer ''10.0.0.1:6881''), OpStop]"
      "[]" "[]"]
    dht_ownership [of owning_opts 5
      "[OpSetTorrent (IdString sample_hash) False, OpEvent DhtReadyEvent]"
      "[OpEvent (DhtPeer ''10.0.0.1:6881'')]"
      "[OpStop, OpEvent (DhtPeer ''10.0.0.1:6881''), OpStop]"]
  by (simp add: borrowing_opts_def owning_opts_def no_opts_def)

lemma deliver_emitted:
  "listening self \<Longrightarrow> pd_emitted (deliver self ev) = pd_emitted self @ forwarded ev"
  by (cases ev)
     (simp_all add: listening_def repeat_lookup_frame onPeer_def onTrackerError_def
        onLookup_def onAnnounce_def split: option.split dht_val.split)

lemma setTorrent_listening:
  "listening self \<Longrightarrow> listening (snd (setTorrent t r self))"
  by (cases t; cases "pd_dht self")
     (simp_all add: listening_def setTorrent_def Let_def dhtLookupAndAnnounce_def
        split: sum.split)

lemma listening_step:
  assumes "listening self"
  shows "listening (pd_step self x) \<and>
         pd_emitted (pd_step self x) = pd_emitted self @ op_forwarded x"
proof (cases x)
  case (OpSetTorrent t r)
  then show ?thesis using assms setTorrent_listening [OF assms, of t r]
    by (simp add: setTorrent_frame)
next
  case (OpEvent ev)
  then show ?thesis using assms deliver_emitted [OF assms, of ev] deliver_frame [of self ev]
    by (simp add: listening_def)
next
  case OpStop
  then show ?thesis using assms stop_frame [of self] by (simp add: listening_def)
qed

lemma listening_run:
  "listening self \<Longrightarrow>
   pd_emitted (pd_run self ops) = pd_emitted self @ concat (map op_forwarded ops)"
proof (induction ops arbitrary: self)
  case Nil
  then show ?case by (simp add: pd_run_def)
next
  case (Cons x ops)
  from listening_step [OF Cons.prems, of x] Cons.IH [of "pd_step self x"]
  show ?case by (simp add: pd_run_Cons)
qed

lemma first_setTorrent:
  assumes "fst (PeerDiscovery_new (Some opts)) = None"
    "po_dht opts \<noteq> Some OptFalse" "po_tracker opts \<noteq> Some False"
  shows "listening (snd (setTorrent t r (snd (PeerDiscovery_new (Some opts))))) \<and>
         pd_emitted (snd (setTorrent t r (snd (PeerDiscovery_new (Some opts))))) = [] \<and>
         fst (setTorrent t r (snd (PeerDiscovery_new (Some opts)))) = None"
  using assms
  by (cases "po_dht opts" rule: dht_of_opt.cases; cases t; cases "po_tracker opts")
     (auto simp: PeerDiscovery_new_def given_opts_def createDHT_def Let_def setTorrent_def
        createTracker_def listening_def dhtLookupAndAnnounce_def split: if_splits)

text \<open>
  C7. Let the constructor have succeeded with the DHT and the tracker not disabled. The
  first \<^verbatim>\<open>setTorrent\<close> does not throw, and whatever comes afterwards the coordinator
  emits, in the order of the source events, \<^verbatim>\<open>warning\<close> for every error of the
  tracker and \<^verbatim>\<open>peer\<close> for every peer of the DHT and of the tracker, and
  \<^verbatim>\<open>dhtAnnounce\<close> for a finished announce, and nothing else. So an error of the
  tracker is never more than a warning and stops no later peer of the DHT.
\<close>

theorem tracker_errors_are_warnings:
  assumes "fst (PeerDiscovery_new (Some opts)) = None"
    "po_dht opts \<noteq> Some OptFalse" "po_tracker opts \<noteq> Some False"
  shows "fst (setTorrent t r (snd (PeerDiscovery_new (Some opts)))) = None \<and>
         pd_emitted (pd_run (snd (PeerDiscovery_new (Some opts))) (OpSetTorrent t r # ops)) =
           concat (map op_forwarded ops)"
  using first_setTorrent [OF assms, of t r]
    listening_run [of "snd (setTorrent t r (snd (PeerDiscovery_new (Some opts))))" ops]
  by (simp add: pd_run_Cons)

theorem tracker_errors_are_warnings_witness:
  "pd_emitted (pd_run (snd (PeerDiscovery_new (Some borrowing_opts)))
     [OpSetTorrent (IdString sample_hash) True,
      OpEvent (TrackerError (External 3)), OpEvent (DhtPeer ''10.0.0.1:6881'')]) =
   [Warning (External 3), Peer ''10.0.0.1:6881'']"
  using tracker_errors_are_warnings [of borrowing_opts "IdString sample_hash" True
      "[OpEvent (TrackerError (External 3)), OpEvent (DhtPeer ''10.0.0.1:6881'')]"]
  by (simp add: borrowing_opts_def no_opts_def PeerDiscovery_new_def given_opts_def
      createDHT_def Let_def)


end
